theory Spec2Isabelle
  imports Main "HOL-Library.Word"
begin

section \<open>Clipboard image drivers (cli/src/media/clipboard-linux.ts, clipboard-windows.ts)\<close>

text \<open>
  The two drivers are sequential \<^verbatim>\<open>async\<close> functions over external collaborators:
  the process runner \<^verbatim>\<open>execFileAsync\<close>, the staging directory provider
  \<^verbatim>\<open>ensureClipboardDir\<close>, the file name generator \<^verbatim>\<open>generateClipboardFilename\<close>,
  \<^verbatim>\<open>fs.promises\<close> and \<^verbatim>\<open>process.env\<close>.  They are embedded as functions of an
  environment \<open>E\<close> (what the outside world answers) and a state (the files on disk and the
  log of every external request made so far).  An awaited promise either resolves with a
  value or rejects; a rejection is a value of the model, and every \<^verbatim>\<open>try/catch\<close> of the
  source is a \<open>try_catch\<close> of the model.
\<close>

subsection \<open>Values\<close>

type_synonym path = string

text \<open>A Node \<^verbatim>\<open>Buffer\<close>: a sequence of bytes.\<close>
type_synonym bytes = "8 word list"

text \<open>
  The result of awaiting a promise (or of a call that may throw).  A thrown value is
  represented by the text the source reads from it:
  \<^verbatim>\<open>error instanceof Error ? error.message : String(error)\<close>.
\<close>
datatype 'a completion = Resolved 'a | Rejected string

text \<open>
  \<^verbatim>\<open>SaveClipboardResult\<close> as the drivers build it: \<^verbatim>\<open>{ success: true, filePath }\<close> or
  \<^verbatim>\<open>{ success: false, error }\<close>.
\<close>
datatype SaveClipboardResult = Success path | Failure string

text \<open>One external request together with the answer it got.\<close>
datatype event =
    Exec string "string list" "string completion"
  | ExecBuffer string "string list" nat "bytes completion"
  | EnsureDir "path completion"
  | GenFilename string "string completion"
  | WriteFile path bytes "unit completion"
  | Stat path "nat completion"
  | Unlink path "unit completion"

subsection \<open>The environment and the state\<close>

text \<open>
  Every answer of the outside world may depend on the history of requests (a tool may
  work at one moment and fail at the next).  \<open>proc_writes\<close> are the files an external
  process leaves on disk (the PowerShell script saves the image itself).  A failing
  \<^verbatim>\<open>writeFile\<close> may leave the first \<open>k\<close> bytes of the data behind (\<open>Some k\<close>) or
  nothing (\<open>None\<close>); a failing \<^verbatim>\<open>unlink\<close> leaves the file where it is.
\<close>
record env =
  WAYLAND_DISPLAY :: "string option"
  proc_text :: "event list \<Rightarrow> string \<Rightarrow> string list \<Rightarrow> string completion"
  proc_buffer :: "event list \<Rightarrow> string \<Rightarrow> string list \<Rightarrow> nat \<Rightarrow> bytes completion"
  proc_writes :: "event list \<Rightarrow> string \<Rightarrow> string list \<Rightarrow> (path \<rightharpoonup> bytes)"
  dir_provider :: "event list \<Rightarrow> path completion"
  name_generator :: "event list \<Rightarrow> string \<Rightarrow> string completion"
  path_join :: "path \<Rightarrow> string \<Rightarrow> path"
  write_fault :: "event list \<Rightarrow> path \<Rightarrow> bytes \<Rightarrow> (string \<times> nat option) option"
  stat_fault :: "event list \<Rightarrow> path \<Rightarrow> string option"
  unlink_fault :: "event list \<Rightarrow> path \<Rightarrow> string option"

record state =
  files :: "path \<rightharpoonup> bytes"
  trace :: "event list"

type_synonym 'a io = "state \<Rightarrow> 'a completion \<times> state"

subsection \<open>Sequencing and catching\<close>

definition return_io :: "'a \<Rightarrow> 'a io" where
  "return_io x s = (Resolved x, s)"

text \<open>\<^verbatim>\<open>const x = await m; f(x)\<close>: a rejection of \<open>m\<close> skips \<open>f\<close>.\<close>
definition bind_io :: "'a io \<Rightarrow> ('a \<Rightarrow> 'b io) \<Rightarrow> 'b io" where
  "bind_io m f s = (case m s of (Resolved x, s') \<Rightarrow> f x s' | (Rejected e, s') \<Rightarrow> (Rejected e, s'))"

text \<open>\<^verbatim>\<open>try { m } catch (error) { h(error) }\<close>.\<close>
definition try_catch :: "'a io \<Rightarrow> (string \<Rightarrow> 'a io) \<Rightarrow> 'a io" where
  "try_catch m h s = (case m s of (Resolved x, s') \<Rightarrow> (Resolved x, s') | (Rejected e, s') \<Rightarrow> h e s')"

text \<open>\<^verbatim>\<open>a && (await m)\<close> and \<^verbatim>\<open>(await m) || (await n)\<close>: the right operand runs only if needed.\<close>
definition and_await :: "bool \<Rightarrow> bool io \<Rightarrow> bool io" where
  "and_await a m = (if a then m else return_io False)"

definition or_await :: "bool io \<Rightarrow> bool io \<Rightarrow> bool io" where
  "or_await m n = bind_io m (\<lambda>a. if a then return_io True else n)"

subsection \<open>External collaborators\<close>

text \<open>
  Modelled from the spec: \<^verbatim>\<open>execFileAsync(executable, args, opts) -> {stdout}\<close> of
  clipboard-shared.js, which fails (rejects) on non-zero exit, spawn error or buffer
  overflow.  Without options the output is text.
\<close>
definition execFileAsync :: "env \<Rightarrow> string \<Rightarrow> string list \<Rightarrow> string io" where
  "execFileAsync E cmd args s =
     (let r = proc_text E (trace s) cmd args in
      (r, s\<lparr>files := files s ++ proc_writes E (trace s) cmd args,
            trace := trace s @ [Exec cmd args r]\<rparr>))"

text \<open>
  Modelled from the spec: the same runner called with
  \<^verbatim>\<open>{ encoding: "buffer", maxBuffer }\<close>; the output is a \<^verbatim>\<open>Buffer\<close>.
\<close>
definition execFileAsync_buffer :: "env \<Rightarrow> string \<Rightarrow> string list \<Rightarrow> nat \<Rightarrow> bytes io" where
  "execFileAsync_buffer E cmd args maxBuffer s =
     (let r = proc_buffer E (trace s) cmd args maxBuffer in
      (r, s\<lparr>files := files s ++ proc_writes E (trace s) cmd args,
            trace := trace s @ [ExecBuffer cmd args maxBuffer r]\<rparr>))"

text \<open>
  Modelled from the spec: \<^verbatim>\<open>ensureClipboardDir() -> path\<close> of clipboard-shared.js, an
  \<^verbatim>\<open>async\<close> function that creates and returns the staging directory.
\<close>
definition ensureClipboardDir :: "env \<Rightarrow> path io" where
  "ensureClipboardDir E s =
     (let r = dir_provider E (trace s) in (r, s\<lparr>trace := trace s @ [EnsureDir r]\<rparr>))"

text \<open>
  Modelled from the spec: \<^verbatim>\<open>generateClipboardFilename(format) -> name\<close> of
  clipboard-shared.js.
\<close>
definition generateClipboardFilename :: "env \<Rightarrow> string \<Rightarrow> string io" where
  "generateClipboardFilename E format s =
     (let r = name_generator E (trace s) format in
      (r, s\<lparr>trace := trace s @ [GenFilename format r]\<rparr>))"

text \<open>
  Modelled from the spec: the logging sink \<^verbatim>\<open>logs.debug(message, "clipboard", { error })\<close>
  of services/logs.js, fire and forget: it never affects control flow.
\<close>
definition logs_debug :: "string \<Rightarrow> string \<Rightarrow> string \<Rightarrow> unit io" where
  "logs_debug message category error = return_io ()"

text \<open>\<^verbatim>\<open>fs.promises.writeFile(filePath, data)\<close>.\<close>
definition fs_writeFile :: "env \<Rightarrow> path \<Rightarrow> bytes \<Rightarrow> unit io" where
  "fs_writeFile E p data s =
     (case write_fault E (trace s) p data of
        None \<Rightarrow>
          (Resolved (),
           s\<lparr>files := (files s)(p \<mapsto> data),
             trace := trace s @ [WriteFile p data (Resolved ())]\<rparr>)
      | Some (msg, left) \<Rightarrow>
          (Rejected msg,
           s\<lparr>files := (case left of None \<Rightarrow> files s | Some k \<Rightarrow> (files s)(p \<mapsto> take k data)),
             trace := trace s @ [WriteFile p data (Rejected msg)]\<rparr>))"

text \<open>\<^verbatim>\<open>(await fs.promises.stat(filePath)).size\<close>.\<close>
definition fs_stat :: "env \<Rightarrow> path \<Rightarrow> nat io" where
  "fs_stat E p s =
     (let r = (case stat_fault E (trace s) p of
                 Some msg \<Rightarrow> Rejected msg
               | None \<Rightarrow>
                   (case files s p of
                      None \<Rightarrow> Rejected ''ENOENT: no such file or directory''
                    | Some b \<Rightarrow> Resolved (length b)))
      in (r, s\<lparr>trace := trace s @ [Stat p r]\<rparr>))"

text \<open>\<^verbatim>\<open>fs.promises.unlink(filePath)\<close>.\<close>
definition fs_unlink :: "env \<Rightarrow> path \<Rightarrow> unit io" where
  "fs_unlink E p s =
     (let r = (case unlink_fault E (trace s) p of
                 Some msg \<Rightarrow> Rejected msg
               | None \<Rightarrow>
                   (case files s p of
                      None \<Rightarrow> Rejected ''ENOENT: no such file or directory''
                    | Some b \<Rightarrow> Resolved ()))
      in (r, s\<lparr>files := (case r of Resolved u \<Rightarrow> (files s)(p := None) | Rejected e \<Rightarrow> files s),
            trace := trace s @ [Unlink p r]\<rparr>))"

subsection \<open>JavaScript string operations\<close>

text \<open>
  Text is a HOL \<open>string\<close>: one \<open>char\<close> per code unit, code units below 256.
\<close>

text \<open>\<^verbatim>\<open>s.startsWith(p)\<close>.\<close>
fun startsWith :: "string \<Rightarrow> string \<Rightarrow> bool" where
  "startsWith s [] = True"
| "startsWith [] (p # ps) = False"
| "startsWith (c # cs) (p # ps) = (c = p \<and> startsWith cs ps)"

text \<open>\<^verbatim>\<open>s.includes(t)\<close>.\<close>
fun str_includes :: "string \<Rightarrow> string \<Rightarrow> bool" where
  "str_includes [] t = (t = [])"
| "str_includes (c # cs) t = (startsWith (c # cs) t \<or> str_includes cs t)"

text \<open>White space and line terminators of ECMAScript that are code units below 256.\<close>
definition isWhiteSpace :: "char \<Rightarrow> bool" where
  "isWhiteSpace c = (of_char c \<in> {9, 10, 11, 12, 13, 32, 160 :: nat})"

text \<open>\<^verbatim>\<open>s.trim()\<close>.\<close>
definition trim :: "string \<Rightarrow> string" where
  "trim s = rev (dropWhile isWhiteSpace (rev (dropWhile isWhiteSpace s)))"

text \<open>\<^verbatim>\<open>s.toLowerCase()\<close> on code units below 256 (A-Z and the Latin-1 capitals).\<close>
definition lowerChar :: "char \<Rightarrow> char" where
  "lowerChar c =
     (let n = (of_char c :: nat) in
      if (65 \<le> n \<and> n \<le> 90) \<or> (192 \<le> n \<and> n \<le> 222 \<and> n \<noteq> 215) then char_of (n + 32) else c)"

definition toLowerCase :: "string \<Rightarrow> string" where
  "toLowerCase s = map lowerChar s"

subsection \<open>clipboard-linux.ts: availability probes\<close>

definition hasXclip :: "env \<Rightarrow> bool io" where
  "hasXclip E =
     try_catch
       (bind_io (execFileAsync E ''which'' [''xclip'']) (\<lambda>_. return_io True))
       (\<lambda>_. return_io False)"

definition hasXsel :: "env \<Rightarrow> bool io" where
  "hasXsel E =
     try_catch
       (bind_io (execFileAsync E ''which'' [''xsel'']) (\<lambda>_. return_io True))
       (\<lambda>_. return_io False)"

definition hasWlPaste :: "env \<Rightarrow> bool io" where
  "hasWlPaste E =
     try_catch
       (bind_io (execFileAsync E ''which'' [''wl-paste'']) (\<lambda>_. return_io True))
       (\<lambda>_. return_io False)"

text \<open>\<^verbatim>\<open>!!process.env["WAYLAND_DISPLAY"]\<close>: unset and the empty string are both falsy.\<close>
definition isWayland :: "env \<Rightarrow> bool" where
  "isWayland E = (case WAYLAND_DISPLAY E of None \<Rightarrow> False | Some v \<Rightarrow> v \<noteq> [])"

subsection \<open>clipboard-linux.ts: hasClipboardImageLinux\<close>

text \<open>\<^verbatim>\<open>stdout.includes("image/png") || stdout.includes("image/jpeg") || stdout.includes("image/gif")\<close>.\<close>
definition listsImage :: "string \<Rightarrow> bool" where
  "listsImage stdout =
     (str_includes stdout ''image/png'' \<or> str_includes stdout ''image/jpeg'' \<or> str_includes stdout ''image/gif'')"

text \<open>
  Each \<^verbatim>\<open>if\<close> block of the function either executes a \<^verbatim>\<open>return\<close> (\<open>Some\<close> of the
  returned value) or falls through to the next block (\<open>None\<close>).
\<close>

definition xclip_targets_args :: "string list" where
  "xclip_targets_args = [''-selection'', ''clipboard'', ''-t'', ''TARGETS'', ''-o'']"

text \<open>Lines 65-74.\<close>
definition has_wayland_block :: "env \<Rightarrow> bool option io" where
  "has_wayland_block E =
     bind_io (and_await (isWayland E) (hasWlPaste E)) (\<lambda>c.
       if c then
         try_catch
           (bind_io (execFileAsync E ''wl-paste'' [''--list-types'']) (\<lambda>stdout.
              return_io (Some (listsImage stdout))))
           (\<lambda>error.
              bind_io (logs_debug ''wl-paste --list-types failed'' ''clipboard'' error) (\<lambda>_.
                return_io None))
       else return_io None)"

text \<open>Lines 77-86.\<close>
definition has_xclip_block :: "env \<Rightarrow> bool option io" where
  "has_xclip_block E =
     bind_io (hasXclip E) (\<lambda>c.
       if c then
         try_catch
           (bind_io (execFileAsync E ''xclip'' xclip_targets_args) (\<lambda>stdout.
              return_io (Some (listsImage stdout))))
           (\<lambda>error.
              bind_io (logs_debug ''xclip TARGETS check failed'' ''clipboard'' error) (\<lambda>_.
                return_io None))
       else return_io None)"

text \<open>Lines 89-102.\<close>
definition has_xsel_block :: "env \<Rightarrow> bool option io" where
  "has_xsel_block E =
     bind_io (hasXsel E) (\<lambda>c.
       if c then
         try_catch
           (bind_io (execFileAsync_buffer E ''xsel'' [''--clipboard'', ''--output''] 1024) (\<lambda>_.
              return_io (Some False)))
           (\<lambda>_. return_io None)
       else return_io None)"

definition hasClipboardImageLinux :: "env \<Rightarrow> bool io" where
  "hasClipboardImageLinux E =
     bind_io (has_wayland_block E) (\<lambda>r.
       case r of
         Some b \<Rightarrow> return_io b
       | None \<Rightarrow>
           bind_io (has_xclip_block E) (\<lambda>r.
             case r of
               Some b \<Rightarrow> return_io b
             | None \<Rightarrow>
                 bind_io (has_xsel_block E) (\<lambda>r.
                   case r of
                     Some b \<Rightarrow> return_io b
                   | None \<Rightarrow> return_io False)))"

subsection \<open>clipboard-linux.ts: saveClipboardImageLinux\<close>

definition no_image_message :: string where
  "no_image_message = ''No image found in clipboard.''"

definition no_tool_message :: string where
  "no_tool_message =
     ''No clipboard tool available. Please install xclip (sudo apt install xclip) or wl-clipboard for Wayland.''"

text \<open>
  Lines 124-139 and 160-175 (the same chain for both tools): the MIME type to request and
  the value assigned to \<^verbatim>\<open>format\<close>, or \<open>None\<close> where the source returns the
  "no image" failure.
\<close>
definition select_format :: "string \<Rightarrow> (string \<times> string) option" where
  "select_format types =
     (if str_includes types ''image/png'' then Some (''image/png'', ''png'')
      else if str_includes types ''image/jpeg'' then Some (''image/jpeg'', ''jpeg'')
      else if str_includes types ''image/gif'' then Some (''image/gif'', ''gif'')
      else None)"

text \<open>
  A block of the function either executes \<^verbatim>\<open>return\<close>, or goes on to the next block with
  the current values of the local variables \<^verbatim>\<open>imageData\<close> (\<open>None\<close> is \<^verbatim>\<open>null\<close>) and
  \<^verbatim>\<open>format\<close>.
\<close>
datatype flow = Return SaveClipboardResult | Continue "bytes option" string

definition max_image_bytes :: nat where
  "max_image_bytes = 50 * 1024 * 1024"

text \<open>
  Lines 119-152.  The \<^verbatim>\<open>try\<close> block assigns \<^verbatim>\<open>format\<close> before it fetches; a rejected
  fetch reaches the one \<^verbatim>\<open>catch\<close> clause with that assignment done, a rejected listing
  reaches it with the locals untouched.  The model writes the clause once for each of
  the two places.  With \<^verbatim>\<open>encoding: "buffer"\<close> the output is a \<^verbatim>\<open>Buffer\<close>, so
  \<^verbatim>\<open>Buffer.isBuffer(stdout) ? stdout : Buffer.from(stdout)\<close> is \<^verbatim>\<open>stdout\<close>.
\<close>
definition save_wayland_block :: "env \<Rightarrow> bytes option \<Rightarrow> string \<Rightarrow> flow io" where
  "save_wayland_block E imageData format =
     bind_io (and_await (isWayland E) (hasWlPaste E)) (\<lambda>c.
       if c then
         try_catch
           (bind_io (execFileAsync E ''wl-paste'' [''--list-types'']) (\<lambda>types.
              case select_format types of
                None \<Rightarrow> return_io (Return (Failure no_image_message))
              | Some (mimeType, fmt) \<Rightarrow>
                  try_catch
                    (bind_io
                       (execFileAsync_buffer E ''wl-paste'' [''--type'', mimeType] max_image_bytes)
                       (\<lambda>stdout. return_io (Continue (Some stdout) fmt)))
                    (\<lambda>error.
                       bind_io (logs_debug ''wl-paste failed, trying xclip'' ''clipboard'' error) (\<lambda>_.
                         return_io (Continue imageData fmt)))))
           (\<lambda>error.
              bind_io (logs_debug ''wl-paste failed, trying xclip'' ''clipboard'' error) (\<lambda>_.
                return_io (Continue imageData format)))
       else return_io (Continue imageData format))"

text \<open>
  Lines 155-188.  \<^verbatim>\<open>!imageData\<close> holds for \<^verbatim>\<open>null\<close> only: a \<^verbatim>\<open>Buffer\<close> is truthy,
  also an empty one.
\<close>
definition save_xclip_block :: "env \<Rightarrow> bytes option \<Rightarrow> string \<Rightarrow> flow io" where
  "save_xclip_block E imageData format =
     bind_io (and_await (imageData = None) (hasXclip E)) (\<lambda>c.
       if c then
         try_catch
           (bind_io (execFileAsync E ''xclip'' xclip_targets_args) (\<lambda>targets.
              case select_format targets of
                None \<Rightarrow> return_io (Return (Failure no_image_message))
              | Some (mimeType, fmt) \<Rightarrow>
                  try_catch
                    (bind_io
                       (execFileAsync_buffer E ''xclip''
                          [''-selection'', ''clipboard'', ''-t'', mimeType, ''-o''] max_image_bytes)
                       (\<lambda>stdout. return_io (Continue (Some stdout) fmt)))
                    (\<lambda>error.
                       bind_io (logs_debug ''xclip failed, trying xsel'' ''clipboard'' error) (\<lambda>_.
                         return_io (Continue imageData fmt)))))
           (\<lambda>error.
              bind_io (logs_debug ''xclip failed, trying xsel'' ''clipboard'' error) (\<lambda>_.
                return_io (Continue imageData format)))
       else return_io (Continue imageData format))"

text \<open>Lines 218-246: write, verify, clean up.\<close>
definition write_and_verify :: "env \<Rightarrow> path \<Rightarrow> bytes \<Rightarrow> SaveClipboardResult io" where
  "write_and_verify E filePath imageData =
     try_catch
       (bind_io (fs_writeFile E filePath imageData) (\<lambda>_.
          bind_io (fs_stat E filePath) (\<lambda>size.
            if size = 0 then
              bind_io (fs_unlink E filePath) (\<lambda>_.
                return_io (Failure ''Failed to write image data to file.''))
            else return_io (Success filePath))))
       (\<lambda>error.
          bind_io (try_catch (fs_unlink E filePath) (\<lambda>_. return_io ())) (\<lambda>_.
            return_io (Failure error)))"

text \<open>Lines 191-247.\<close>
definition save_finish :: "env \<Rightarrow> path \<Rightarrow> bytes option \<Rightarrow> string \<Rightarrow> SaveClipboardResult io" where
  "save_finish E clipboardDir imageData format =
     (case imageData of
        None \<Rightarrow>
          bind_io (or_await (or_await (hasWlPaste E) (hasXclip E)) (hasXsel E)) (\<lambda>hasAnyTool.
            if \<not> hasAnyTool then return_io (Failure no_tool_message)
            else return_io (Failure no_image_message))
      | Some data \<Rightarrow>
          if length data = 0 then return_io (Failure ''Clipboard image is empty.'')
          else
            bind_io (generateClipboardFilename E format) (\<lambda>filename.
              write_and_verify E (path_join E clipboardDir filename) data))"

definition saveClipboardImageLinux :: "env \<Rightarrow> SaveClipboardResult io" where
  "saveClipboardImageLinux E =
     bind_io (ensureClipboardDir E) (\<lambda>clipboardDir.
       bind_io (save_wayland_block E None ''png'') (\<lambda>r.
         case r of
           Return res \<Rightarrow> return_io res
         | Continue imageData format \<Rightarrow>
             bind_io (save_xclip_block E imageData format) (\<lambda>r.
               case r of
                 Return res \<Rightarrow> return_io res
               | Continue imageData format \<Rightarrow> save_finish E clipboardDir imageData format)))"

subsection \<open>clipboard-windows.ts\<close>

text \<open>A template literal: it opens with a line break and every line ends with one.\<close>
definition script_lines :: "string list \<Rightarrow> string" where
  "script_lines ls = CHR 0x0A # concat (map (\<lambda>l. l @ [CHR 0x0A]) ls)"

definition dquote :: "string \<Rightarrow> string" where
  "dquote s = CHR 0x22 # s @ [CHR 0x22]"

definition squote :: "string \<Rightarrow> string" where
  "squote s = CHR 0x27 # s @ [CHR 0x27]"

definition powershell_args :: "string \<Rightarrow> string list" where
  "powershell_args script = [''-NoProfile'', ''-NonInteractive'', ''-Command'', script]"

definition runPowerShell :: "env \<Rightarrow> string \<Rightarrow> string io" where
  "runPowerShell E script =
     bind_io (execFileAsync E ''powershell.exe'' (powershell_args script)) (\<lambda>stdout.
       return_io (trim stdout))"

definition contains_image_script :: string where
  "contains_image_script =
     script_lines
       [''Add-Type -AssemblyName System.Windows.Forms'',
        ''[System.Windows.Forms.Clipboard]::ContainsImage()'']"

definition hasClipboardImageWindows :: "env \<Rightarrow> bool io" where
  "hasClipboardImageWindows E =
     try_catch
       (bind_io (runPowerShell E contains_image_script) (\<lambda>result.
          return_io (toLowerCase result = ''true'')))
       (\<lambda>error.
          bind_io (logs_debug ''Windows clipboard check failed'' ''clipboard'' error) (\<lambda>_.
            return_io False))"

text \<open>\<^verbatim>\<open>filePath.replace(/\\/g, "\\\\")\<close>: every backslash is doubled.\<close>
definition escape_backslashes :: "string \<Rightarrow> string" where
  "escape_backslashes p = concat (map (\<lambda>c. if c = CHR 0x5C then [c, c] else [c]) p)"

definition save_image_script :: "string \<Rightarrow> string" where
  "save_image_script escapedPath =
     script_lines
       [''Add-Type -AssemblyName System.Windows.Forms'',
        ''Add-Type -AssemblyName System.Drawing'',
        [],
        ''$img = [System.Windows.Forms.Clipboard]::GetImage()'',
        ''if ($img -eq $null) {'',
        ''    Write-Output '' @ dquote ''NO_IMAGE'',
        ''    exit 0'',
        ''}'',
        [],
        ''try {'',
        ''    $img.Save('' @ squote escapedPath @ '', [System.Drawing.Imaging.ImageFormat]::Png)'',
        ''    Write-Output '' @ dquote ''SUCCESS'',
        ''} catch {'',
        ''    Write-Output '' @ dquote ''ERROR: $_'',
        ''} finally {'',
        ''    $img.Dispose()'',
        ''}'']"

text \<open>Lines 91-111.\<close>
definition verify_created :: "env \<Rightarrow> path \<Rightarrow> SaveClipboardResult io" where
  "verify_created E filePath =
     try_catch
       (bind_io (fs_stat E filePath) (\<lambda>size.
          if size = 0 then
            bind_io (fs_unlink E filePath) (\<lambda>_.
              return_io (Failure ''Failed to write image data to file.''))
          else return_io (Success filePath)))
       (\<lambda>_. return_io (Failure ''Image file was not created.''))"

definition saveClipboardImageWindows :: "env \<Rightarrow> SaveClipboardResult io" where
  "saveClipboardImageWindows E =
     bind_io (ensureClipboardDir E) (\<lambda>clipboardDir.
       bind_io (generateClipboardFilename E ''png'') (\<lambda>filename.
         let filePath = path_join E clipboardDir filename;
             escapedPath = escape_backslashes filePath
         in
           try_catch
             (bind_io (runPowerShell E (save_image_script escapedPath)) (\<lambda>result.
                if result = ''NO_IMAGE'' then return_io (Failure no_image_message)
                else if startsWith result ''ERROR:'' then
                  return_io (Failure (trim (drop 7 result)))
                else verify_created E filePath))
             (\<lambda>error.
                bind_io (try_catch (fs_unlink E filePath) (\<lambda>_. return_io ())) (\<lambda>_.
                  bind_io (logs_debug ''Windows clipboard save failed'' ''clipboard'' error) (\<lambda>_.
                    return_io (Failure error))))))"

section \<open>Vocabulary of the properties\<close>

text \<open>The requests a run adds to the log: what \<open>run = m s\<close> did, in order.\<close>
definition new_events :: "state \<Rightarrow> 'a completion \<times> state \<Rightarrow> event list" where
  "new_events s run = drop (length (trace s)) (trace (snd run))"

text \<open>The event runs the executable \<open>tool\<close>.\<close>
fun invokes :: "string \<Rightarrow> event \<Rightarrow> bool" where
  "invokes tool (Exec cmd args r) = (cmd = tool)"
| "invokes tool (ExecBuffer cmd args n r) = (cmd = tool)"
| "invokes tool ev = False"

text \<open>A run of an external process.\<close>
fun is_process :: "event \<Rightarrow> bool" where
  "is_process (Exec cmd args r) = True"
| "is_process (ExecBuffer cmd args n r) = True"
| "is_process ev = False"

text \<open>An availability probe.\<close>
fun is_which :: "event \<Rightarrow> bool" where
  "is_which (Exec cmd args r) = (cmd = ''which'')"
| "is_which ev = False"

fun is_fs_event :: "event \<Rightarrow> bool" where
  "is_fs_event (WriteFile p b r) = True"
| "is_fs_event (Stat p r) = True"
| "is_fs_event (Unlink p r) = True"
| "is_fs_event ev = False"

text \<open>A type listing of wl-paste or xclip that succeeded and names no supported image type.\<close>
fun empty_listing :: "event \<Rightarrow> bool" where
  "empty_listing (Exec cmd args (Resolved out)) =
     ((cmd = ''wl-paste'' \<or> cmd = ''xclip'') \<and> select_format out = None)"
| "empty_listing ev = False"

text \<open>A fetch that succeeded with zero bytes.\<close>
fun empty_fetch :: "event \<Rightarrow> bool" where
  "empty_fetch (ExecBuffer cmd args n (Resolved b)) = (b = [])"
| "empty_fetch ev = False"

text \<open>The bytes delivered by those fetches of a run that succeeded, in order.\<close>
fun fetched_bytes :: "event list \<Rightarrow> bytes list" where
  "fetched_bytes [] = []"
| "fetched_bytes (ExecBuffer cmd args n (Resolved b) # evs) = b # fetched_bytes evs"
| "fetched_bytes (ev # evs) = fetched_bytes evs"

text \<open>The arguments of the fetch, per tool (lines 141 and 177).\<close>
definition fetch_args :: "string \<Rightarrow> string \<Rightarrow> string list" where
  "fetch_args tool mimeType =
     (if tool = ''wl-paste'' then [''--type'', mimeType]
      else [''-selection'', ''clipboard'', ''-t'', mimeType, ''-o''])"

text \<open>The arguments PowerShell gets to save the image at \<open>filePath\<close> (lines 52-75).\<close>
definition save_command :: "path \<Rightarrow> string list" where
  "save_command filePath = powershell_args (save_image_script (escape_backslashes filePath))"

text \<open>
  The spec's words for type negotiation: the first supported format in the fixed priority
  order png, jpeg, gif.
\<close>
definition first_supported :: "string \<Rightarrow> string option" where
  "first_supported types =
     find (\<lambda>fmt. str_includes types (''image/'' @ fmt)) [''png'', ''jpeg'', ''gif'']"

text \<open>The text equals "true" up to the case of its four letters.\<close>
definition true_ignoring_case :: "string \<Rightarrow> bool" where
  "true_ignoring_case t =
     (length t = 4 \<and> t ! 0 \<in> {CHR ''t'', CHR ''T''} \<and> t ! 1 \<in> {CHR ''r'', CHR ''R''}
      \<and> t ! 2 \<in> {CHR ''u'', CHR ''U''} \<and> t ! 3 \<in> {CHR ''e'', CHR ''E''})"

section \<open>Concrete environments\<close>

text \<open>
  A Linux desktop: the value of \<^verbatim>\<open>WAYLAND_DISPLAY\<close>, the installed tools, and what each
  installed tool answers to a type listing and to a fetch.  Nothing fails on disk.
\<close>
definition desktop ::
  "string option \<Rightarrow> string list \<Rightarrow> (string \<Rightarrow> string completion) \<Rightarrow> (string \<Rightarrow> bytes completion) \<Rightarrow> env"
where
  "desktop display installed listing fetch =
     \<lparr>WAYLAND_DISPLAY = display,
      proc_text = (\<lambda>h cmd args.
        if cmd = ''which'' then
          (case args of
             [tool] \<Rightarrow>
               if tool \<in> set installed then Resolved (''/usr/bin/'' @ tool)
               else Rejected ''Command failed: which''
           | _ \<Rightarrow> Rejected ''Command failed: which'')
        else if cmd \<in> set installed then listing cmd
        else Rejected ''spawn ENOENT''),
      proc_buffer = (\<lambda>h cmd args maxBuffer.
        if cmd \<in> set installed then fetch cmd else Rejected ''spawn ENOENT''),
      proc_writes = (\<lambda>h cmd args. Map.empty),
      dir_provider = (\<lambda>h. Resolved ''/tmp/kilocode-clipboard''),
      name_generator = (\<lambda>h format. Resolved (''clipboard-1.'' @ format)),
      path_join = (\<lambda>dir name. dir @ ''/'' @ name),
      write_fault = (\<lambda>h p data. None),
      stat_fault = (\<lambda>h p. None),
      unlink_fault = (\<lambda>h p. None)\<rparr>"

text \<open>A Windows machine: what PowerShell prints (or how it fails) and the files it leaves.\<close>
definition windows :: "string completion \<Rightarrow> (path \<rightharpoonup> bytes) \<Rightarrow> env" where
  "windows answer saved =
     \<lparr>WAYLAND_DISPLAY = None,
      proc_text = (\<lambda>h cmd args. if cmd = ''powershell.exe'' then answer else Rejected ''spawn ENOENT''),
      proc_buffer = (\<lambda>h cmd args maxBuffer. Rejected ''spawn ENOENT''),
      proc_writes = (\<lambda>h cmd args. if cmd = ''powershell.exe'' then saved else Map.empty),
      dir_provider = (\<lambda>h. Resolved ''C:/Temp/kilocode-clipboard''),
      name_generator = (\<lambda>h format. Resolved (''clipboard-1.'' @ format)),
      path_join = (\<lambda>dir name. dir @ ''/'' @ name),
      write_fault = (\<lambda>h p data. None),
      stat_fault = (\<lambda>h p. None),
      unlink_fault = (\<lambda>h p. None)\<rparr>"

text \<open>Before a call: no file of interest on disk, nothing requested yet.\<close>
definition fresh :: state where
  "fresh = \<lparr>files = Map.empty, trace = []\<rparr>"

definition png_bytes :: bytes where
  "png_bytes = [0x89, 0x50, 0x4E, 0x47]"

definition jpeg_bytes :: bytes where
  "jpeg_bytes = [0xFF, 0xD8, 0xFF, 0xE0]"

definition crlf :: string where
  "crlf = [CHR 0x0D, CHR 0x0A]"

text \<open>The path the Windows environments generate.\<close>
definition windows_png_path :: path where
  "windows_png_path = ''C:/Temp/kilocode-clipboard/clipboard-1.png''"

text \<open>
  Wayland session, wl-paste and xclip installed; wl-paste lists text only, while xclip
  would list and deliver a PNG.
\<close>
definition text_only_on_wayland :: env where
  "text_only_on_wayland =
     desktop (Some ''wayland-0'') [''wl-paste'', ''xclip'']
       (\<lambda>tool. if tool = ''wl-paste'' then Resolved ''text/plain'' else Resolved ''image/png'')
       (\<lambda>tool. Resolved png_bytes)"

text \<open>
  Wayland session, wl-paste and xclip installed, both list a PNG; wl-paste delivers zero
  bytes, xclip would deliver the image.
\<close>
definition empty_on_wayland :: env where
  "empty_on_wayland =
     desktop (Some ''wayland-0'') [''wl-paste'', ''xclip'']
       (\<lambda>tool. Resolved ''image/png'')
       (\<lambda>tool. if tool = ''wl-paste'' then Resolved [] else Resolved png_bytes)"

text \<open>
  Wayland session, wl-paste and xclip installed, both list a PNG; the fetch of wl-paste
  fails, xclip delivers the image.
\<close>
definition failing_on_wayland :: env where
  "failing_on_wayland =
     desktop (Some ''wayland-0'') [''wl-paste'', ''xclip'']
       (\<lambda>tool. Resolved ''image/png'')
       (\<lambda>tool. if tool = ''wl-paste'' then Rejected ''Command failed: wl-paste''
               else Resolved png_bytes)"

text \<open>
  A session with \<^verbatim>\<open>WAYLAND_DISPLAY\<close> as given (unset or empty for X11), wl-paste and xclip
  installed; the clipboard holds a PNG.
\<close>
definition png_without_wayland :: "string option \<Rightarrow> env" where
  "png_without_wayland display =
     desktop display [''wl-paste'', ''xclip'']
       (\<lambda>tool. Resolved ''image/png'')
       (\<lambda>tool. Resolved png_bytes)"

text \<open>No clipboard tool is installed.\<close>
definition nothing_installed :: env where
  "nothing_installed =
     desktop (Some ''wayland-0'') []
       (\<lambda>tool. Rejected ''spawn ENOENT'')
       (\<lambda>tool. Rejected ''spawn ENOENT'')"

text \<open>X11 session with xclip only; the clipboard offers a GIF and a JPEG, listed in that order.\<close>
definition gif_and_jpeg :: env where
  "gif_and_jpeg =
     desktop None [''xclip'']
       (\<lambda>tool. Resolved ''image/gif image/jpeg'')
       (\<lambda>tool. Resolved jpeg_bytes)"

text \<open>
  X11 session with a PNG on the clipboard and a disk where \<^verbatim>\<open>writeFile\<close> fails as \<open>w\<close> says
  and \<^verbatim>\<open>unlink\<close> as \<open>u\<close> says.
\<close>
definition faulty_disk :: "(string \<times> nat option) option \<Rightarrow> string option \<Rightarrow> env" where
  "faulty_disk w u =
     (png_without_wayland None)\<lparr>write_fault := (\<lambda>h p data. w), unlink_fault := (\<lambda>h p. u)\<rparr>"

text \<open>The staging directory cannot be created.\<close>
definition no_staging_dir :: "env \<Rightarrow> env" where
  "no_staging_dir E = E\<lparr>dir_provider := (\<lambda>h. Rejected ''EACCES: permission denied, mkdir'')\<rparr>"

text \<open>PowerShell saves a PNG and prints SUCCESS.\<close>
definition png_on_windows :: env where
  "png_on_windows = windows (Resolved (''SUCCESS'' @ crlf)) [windows_png_path \<mapsto> png_bytes]"

text \<open>PowerShell finds no image: the script prints NO_IMAGE and exits before it saves anything.\<close>
definition no_image_on_windows :: env where
  "no_image_on_windows = windows (Resolved (''NO_IMAGE'' @ crlf)) Map.empty"

text \<open>
  The PowerShell run fails after it wrote the first two bytes of the file, and the file
  cannot be deleted.
\<close>
definition locked_file_on_windows :: env where
  "locked_file_on_windows =
     (windows (Rejected ''Command failed: powershell.exe'') [windows_png_path \<mapsto> [0x89, 0x50]])
       \<lparr>unlink_fault := (\<lambda>h p. Some ''EBUSY: resource busy or locked, unlink'')\<rparr>"

text \<open>PowerShell prints SUCCESS and leaves a file of zero bytes.\<close>
definition empty_file_on_windows :: env where
  "empty_file_on_windows = windows (Resolved (''SUCCESS'' @ crlf)) [windows_png_path \<mapsto> []]"

section \<open>Properties\<close>

subsection \<open>Running the blocks\<close>

lemmas io_defs = return_io_def bind_io_def try_catch_def and_await_def or_await_def
  logs_debug_def execFileAsync_def execFileAsync_buffer_def ensureClipboardDir_def
  generateClipboardFilename_def fs_writeFile_def fs_stat_def fs_unlink_def

lemmas probe_defs = hasXclip_def hasXsel_def hasWlPaste_def

lemmas save_linux_defs = saveClipboardImageLinux_def save_wayland_block_def save_xclip_block_def
  save_finish_def write_and_verify_def isWayland_def xclip_targets_args_def max_image_bytes_def

lemmas has_linux_defs = hasClipboardImageLinux_def has_wayland_block_def has_xclip_block_def
  has_xsel_block_def isWayland_def xclip_targets_args_def listsImage_def

lemmas save_windows_defs = saveClipboardImageWindows_def runPowerShell_def verify_created_def

lemma save_wayland_block_cases [consumes 1, case_names skip absent list_failed no_image fetch_failed fetched]:
  assumes run: "save_wayland_block E d f s = (r, s')"
  obtains
    "\<not> isWayland E" "r = Resolved (Continue d f)" "trace s' = trace s"
  | e where "isWayland E"
      "proc_text E (trace s) ''which'' [''wl-paste''] = Rejected e"
      "r = Resolved (Continue d f)"
      "trace s' = trace s @ [Exec ''which'' [''wl-paste''] (Rejected e)]"
  | w e where "isWayland E"
      "proc_text E (trace s) ''which'' [''wl-paste''] = Resolved w"
      "proc_text E (trace s @ [Exec ''which'' [''wl-paste''] (Resolved w)])
         ''wl-paste'' [''--list-types''] = Rejected e"
      "r = Resolved (Continue d f)"
      "trace s' = trace s @ [Exec ''which'' [''wl-paste''] (Resolved w),
                            Exec ''wl-paste'' [''--list-types''] (Rejected e)]"
  | w types where "isWayland E"
      "proc_text E (trace s) ''which'' [''wl-paste''] = Resolved w"
      "proc_text E (trace s @ [Exec ''which'' [''wl-paste''] (Resolved w)])
         ''wl-paste'' [''--list-types''] = Resolved types"
      "select_format types = None"
      "r = Resolved (Return (Failure no_image_message))"
      "trace s' = trace s @ [Exec ''which'' [''wl-paste''] (Resolved w),
                            Exec ''wl-paste'' [''--list-types''] (Resolved types)]"
  | w types mime fmt e where "isWayland E"
      "proc_text E (trace s) ''which'' [''wl-paste''] = Resolved w"
      "proc_text E (trace s @ [Exec ''which'' [''wl-paste''] (Resolved w)])
         ''wl-paste'' [''--list-types''] = Resolved types"
      "select_format types = Some (mime, fmt)"
      "proc_buffer E (trace s @ [Exec ''which'' [''wl-paste''] (Resolved w),
                            Exec ''wl-paste'' [''--list-types''] (Resolved types)])
         ''wl-paste'' [''--type'', mime] max_image_bytes = Rejected e"
      "r = Resolved (Continue d fmt)"
      "trace s' = trace s @ [Exec ''which'' [''wl-paste''] (Resolved w),
                            Exec ''wl-paste'' [''--list-types''] (Resolved types),
                            ExecBuffer ''wl-paste'' [''--type'', mime] max_image_bytes (Rejected e)]"
  | w types mime fmt data where "isWayland E"
      "proc_text E (trace s) ''which'' [''wl-paste''] = Resolved w"
      "proc_text E (trace s @ [Exec ''which'' [''wl-paste''] (Resolved w)])
         ''wl-paste'' [''--list-types''] = Resolved types"
      "select_format types = Some (mime, fmt)"
      "proc_buffer E (trace s @ [Exec ''which'' [''wl-paste''] (Resolved w),
                            Exec ''wl-paste'' [''--list-types''] (Resolved types)])
         ''wl-paste'' [''--type'', mime] max_image_bytes = Resolved data"
      "r = Resolved (Continue (Some data) fmt)"
      "trace s' = trace s @ [Exec ''which'' [''wl-paste''] (Resolved w),
                            Exec ''wl-paste'' [''--list-types''] (Resolved types),
                            ExecBuffer ''wl-paste'' [''--type'', mime] max_image_bytes (Resolved data)]"
  using run
  by (auto simp: save_wayland_block_def probe_defs io_defs Let_def
      split: completion.splits option.splits if_splits prod.splits)

lemma save_xclip_block_cases [consumes 1, case_names has_data absent list_failed no_image fetch_failed fetched]:
  assumes run: "save_xclip_block E d f s = (r, s')"
  obtains
    "d \<noteq> None" "r = Resolved (Continue d f)" "trace s' = trace s"
  | e where "d = None"
      "proc_text E (trace s) ''which'' [''xclip''] = Rejected e"
      "r = Resolved (Continue d f)"
      "trace s' = trace s @ [Exec ''which'' [''xclip''] (Rejected e)]"
  | w e where "d = None"
      "proc_text E (trace s) ''which'' [''xclip''] = Resolved w"
      "proc_text E (trace s @ [Exec ''which'' [''xclip''] (Resolved w)])
         ''xclip'' xclip_targets_args = Rejected e"
      "r = Resolved (Continue d f)"
      "trace s' = trace s @ [Exec ''which'' [''xclip''] (Resolved w),
                            Exec ''xclip'' xclip_targets_args (Rejected e)]"
  | w types where "d = None"
      "proc_text E (trace s) ''which'' [''xclip''] = Resolved w"
      "proc_text E (trace s @ [Exec ''which'' [''xclip''] (Resolved w)])
         ''xclip'' xclip_targets_args = Resolved types"
      "select_format types = None"
      "r = Resolved (Return (Failure no_image_message))"
      "trace s' = trace s @ [Exec ''which'' [''xclip''] (Resolved w),
                            Exec ''xclip'' xclip_targets_args (Resolved types)]"
  | w types mime fmt e where "d = None"
      "proc_text E (trace s) ''which'' [''xclip''] = Resolved w"
      "proc_text E (trace s @ [Exec ''which'' [''xclip''] (Resolved w)])
         ''xclip'' xclip_targets_args = Resolved types"
      "select_format types = Some (mime, fmt)"
      "proc_buffer E (trace s @ [Exec ''which'' [''xclip''] (Resolved w),
                            Exec ''xclip'' xclip_targets_args (Resolved types)])
         ''xclip'' [''-selection'', ''clipboard'', ''-t'', mime, ''-o''] max_image_bytes = Rejected e"
      "r = Resolved (Continue d fmt)"
      "trace s' = trace s @ [Exec ''which'' [''xclip''] (Resolved w),
                            Exec ''xclip'' xclip_targets_args (Resolved types),
                            ExecBuffer ''xclip'' [''-selection'', ''clipboard'', ''-t'', mime, ''-o'']
                              max_image_bytes (Rejected e)]"
  | w types mime fmt data where "d = None"
      "proc_text E (trace s) ''which'' [''xclip''] = Resolved w"
      "proc_text E (trace s @ [Exec ''which'' [''xclip''] (Resolved w)])
         ''xclip'' xclip_targets_args = Resolved types"
      "select_format types = Some (mime, fmt)"
      "proc_buffer E (trace s @ [Exec ''which'' [''xclip''] (Resolved w),
                            Exec ''xclip'' xclip_targets_args (Resolved types)])
         ''xclip'' [''-selection'', ''clipboard'', ''-t'', mime, ''-o''] max_image_bytes = Resolved data"
      "r = Resolved (Continue (Some data) fmt)"
      "trace s' = trace s @ [Exec ''which'' [''xclip''] (Resolved w),
                            Exec ''xclip'' xclip_targets_args (Resolved types),
                            ExecBuffer ''xclip'' [''-selection'', ''clipboard'', ''-t'', mime, ''-o'']
                              max_image_bytes (Resolved data)]"
  using run
  by (auto simp: save_xclip_block_def probe_defs io_defs Let_def
      split: completion.splits option.splits if_splits prod.splits)

lemma saveClipboardImageLinux_cases [consumes 1, case_names no_dir wayland_returned xclip_returned finished]:
  assumes run: "saveClipboardImageLinux E s = (r, s')"
  obtains
    e where "dir_provider E (trace s) = Rejected e" "r = Rejected e"
      "trace s' = trace s @ [EnsureDir (Rejected e)]" "files s' = files s"
  | dir res where "dir_provider E (trace s) = Resolved dir"
      "save_wayland_block E None ''png'' (s\<lparr>trace := trace s @ [EnsureDir (Resolved dir)]\<rparr>)
         = (Resolved (Return res), s')"
      "r = Resolved res"
  | dir d f s1 res where "dir_provider E (trace s) = Resolved dir"
      "save_wayland_block E None ''png'' (s\<lparr>trace := trace s @ [EnsureDir (Resolved dir)]\<rparr>)
         = (Resolved (Continue d f), s1)"
      "save_xclip_block E d f s1 = (Resolved (Return res), s')"
      "r = Resolved res"
  | dir d f s1 d' f' s2 where "dir_provider E (trace s) = Resolved dir"
      "save_wayland_block E None ''png'' (s\<lparr>trace := trace s @ [EnsureDir (Resolved dir)]\<rparr>)
         = (Resolved (Continue d f), s1)"
      "save_xclip_block E d f s1 = (Resolved (Continue d' f'), s2)"
      "save_finish E dir d' f' s2 = (r, s')"
proof (cases "dir_provider E (trace s)")
  case (Rejected e)
  with run that(1) show ?thesis
    by (auto simp: saveClipboardImageLinux_def ensureClipboardDir_def bind_io_def Let_def)
next
  case (Resolved dir)
  let ?s0 = "s\<lparr>trace := trace s @ [EnsureDir (Resolved dir)]\<rparr>"
  obtain r1 s1 where w: "save_wayland_block E None ''png'' ?s0 = (r1, s1)"
    by (cases "save_wayland_block E None ''png'' ?s0")
  from w obtain fl where r1: "r1 = Resolved fl"
    by (cases rule: save_wayland_block_cases) auto
  show ?thesis
  proof (cases fl)
    case (Return res)
    with run Resolved w r1 that(2) show ?thesis
      by (auto simp: saveClipboardImageLinux_def ensureClipboardDir_def bind_io_def Let_def return_io_def)
  next
    case (Continue d f)
    obtain r2 s2 where x: "save_xclip_block E d f s1 = (r2, s2)"
      by (cases "save_xclip_block E d f s1")
    from x obtain fl2 where r2: "r2 = Resolved fl2"
      by (cases rule: save_xclip_block_cases) auto
    show ?thesis
    proof (cases fl2)
      case (Return res)
      with run Resolved w r1 Continue x r2 that(3) show ?thesis
        by (auto simp: saveClipboardImageLinux_def ensureClipboardDir_def bind_io_def Let_def return_io_def)
    next
      case c2: (Continue d' f')
      with run Resolved w r1 Continue x r2 that(4) show ?thesis
        by (auto simp: saveClipboardImageLinux_def ensureClipboardDir_def bind_io_def Let_def return_io_def)
    qed
  qed
qed


lemma write_and_verify_trace:
  "\<exists>evs. trace (snd (write_and_verify E p data s)) = trace s @ evs \<and> list_all is_fs_event evs"
  by (auto simp: write_and_verify_def io_defs Let_def split: completion.splits option.splits prod.splits)

lemma write_and_verify_success:
  assumes "write_and_verify E p data s = (Resolved (Success q), s')"
  shows "q = p \<and> files s' p = Some data \<and> data \<noteq> []"
  using assms
  by (auto simp: write_and_verify_def io_defs Let_def split: completion.splits option.splits prod.splits if_splits)

lemma write_and_verify_failure:
  assumes "write_and_verify E p data s = (Resolved (Failure e), s')"
    and "\<And>h q. unlink_fault E h q = None"
  shows "files s' p = None"
  using assms
  by (auto simp: write_and_verify_def io_defs Let_def split: completion.splits option.splits prod.splits if_splits)

lemma save_finish_cases [consumes 1, case_names no_tool some_tool empty no_name persist]:
  assumes run: "save_finish E dir d f s = (r, s')"
  obtains
    e1 e2 e3 where "d = None" "r = Resolved (Failure no_tool_message)"
      "trace s' = trace s @ [Exec ''which'' [''wl-paste''] (Rejected e1),
         Exec ''which'' [''xclip''] (Rejected e2), Exec ''which'' [''xsel''] (Rejected e3)]"
  | evs where "d = None" "r = Resolved (Failure no_image_message)"
      "trace s' = trace s @ evs" "list_all is_which evs"
  | "d = Some []" "r = Resolved (Failure ''Clipboard image is empty.'')" "trace s' = trace s"
  | data e where "d = Some data" "data \<noteq> []" "name_generator E (trace s) f = Rejected e"
      "r = Rejected e" "trace s' = trace s @ [GenFilename f (Rejected e)]"
  | data name where "d = Some data" "data \<noteq> []" "name_generator E (trace s) f = Resolved name"
      "write_and_verify E (path_join E dir name) data
         (s\<lparr>trace := trace s @ [GenFilename f (Resolved name)]\<rparr>) = (r, s')"
  using run
  by (auto simp: save_finish_def probe_defs io_defs Let_def
      split: completion.splits option.splits if_splits prod.splits)

lemma verify_created_returns: "\<exists>res. fst (verify_created E p s) = Resolved res"
  by (auto simp: verify_created_def io_defs Let_def split: completion.splits option.splits)

lemma verify_created_success:
  assumes "verify_created E p s = (Resolved (Success q), s')"
  shows "\<exists>data. q = p \<and> files s p = Some data \<and> data \<noteq> [] \<and> files s' = files s
     \<and> trace s' = trace s @ [Stat p (Resolved (length data))]"
  using assms
  by (auto simp: verify_created_def io_defs Let_def split: completion.splits option.splits if_splits)

lemma verify_created_failure:
  assumes "verify_created E p s = (Resolved (Failure e), s')"
    and "\<And>h q. unlink_fault E h q = None" "\<And>h q. stat_fault E h q = None"
  shows "files s' p = None"
  using assms
  by (auto simp: verify_created_def io_defs Let_def split: completion.splits option.splits if_splits)

lemma verify_created_trace:
  "\<exists>evs. trace (snd (verify_created E p s)) = trace s @ evs \<and> list_all is_fs_event evs"
  by (auto simp: verify_created_def io_defs Let_def split: completion.splits option.splits)

lemma saveClipboardImageWindows_cases
  [consumes 1, case_names no_dir no_name runner_failed no_image script_error verified]:
  assumes run: "saveClipboardImageWindows E s = (r, s')"
  obtains
    e where "dir_provider E (trace s) = Rejected e" "r = Rejected e"
      "trace s' = trace s @ [EnsureDir (Rejected e)]" "files s' = files s"
  | dir e where "dir_provider E (trace s) = Resolved dir"
      "name_generator E (trace s @ [EnsureDir (Resolved dir)]) ''png'' = Rejected e"
      "r = Rejected e"
      "trace s' = trace s @ [EnsureDir (Resolved dir), GenFilename ''png'' (Rejected e)]"
      "files s' = files s"
  | dir name e u where "dir_provider E (trace s) = Resolved dir"
      "name_generator E (trace s @ [EnsureDir (Resolved dir)]) ''png'' = Resolved name"
      "proc_text E (trace s @ [EnsureDir (Resolved dir), GenFilename ''png'' (Resolved name)])
         ''powershell.exe'' (save_command (path_join E dir name)) = Rejected e"
      "r = Resolved (Failure e)"
      "trace s' = trace s @ [EnsureDir (Resolved dir), GenFilename ''png'' (Resolved name),
         Exec ''powershell.exe'' (save_command (path_join E dir name)) (Rejected e),
         Unlink (path_join E dir name) u]"
      "unlink_fault E (trace s @ [EnsureDir (Resolved dir), GenFilename ''png'' (Resolved name),
         Exec ''powershell.exe'' (save_command (path_join E dir name)) (Rejected e)])
         (path_join E dir name) = None \<Longrightarrow> files s' (path_join E dir name) = None"
  | dir name out where "dir_provider E (trace s) = Resolved dir"
      "name_generator E (trace s @ [EnsureDir (Resolved dir)]) ''png'' = Resolved name"
      "proc_text E (trace s @ [EnsureDir (Resolved dir), GenFilename ''png'' (Resolved name)])
         ''powershell.exe'' (save_command (path_join E dir name)) = Resolved out"
      "trim out = ''NO_IMAGE''"
      "r = Resolved (Failure no_image_message)"
      "trace s' = trace s @ [EnsureDir (Resolved dir), GenFilename ''png'' (Resolved name),
         Exec ''powershell.exe'' (save_command (path_join E dir name)) (Resolved out)]"
      "files s' = files s ++ proc_writes E
         (trace s @ [EnsureDir (Resolved dir), GenFilename ''png'' (Resolved name)])
         ''powershell.exe'' (save_command (path_join E dir name))"
  | dir name out where "dir_provider E (trace s) = Resolved dir"
      "name_generator E (trace s @ [EnsureDir (Resolved dir)]) ''png'' = Resolved name"
      "proc_text E (trace s @ [EnsureDir (Resolved dir), GenFilename ''png'' (Resolved name)])
         ''powershell.exe'' (save_command (path_join E dir name)) = Resolved out"
      "trim out \<noteq> ''NO_IMAGE''" "startsWith (trim out) ''ERROR:''"
      "r = Resolved (Failure (trim (drop 7 (trim out))))"
      "trace s' = trace s @ [EnsureDir (Resolved dir), GenFilename ''png'' (Resolved name),
         Exec ''powershell.exe'' (save_command (path_join E dir name)) (Resolved out)]"
  | dir name out where "dir_provider E (trace s) = Resolved dir"
      "name_generator E (trace s @ [EnsureDir (Resolved dir)]) ''png'' = Resolved name"
      "proc_text E (trace s @ [EnsureDir (Resolved dir), GenFilename ''png'' (Resolved name)])
         ''powershell.exe'' (save_command (path_join E dir name)) = Resolved out"
      "trim out \<noteq> ''NO_IMAGE''" "\<not> startsWith (trim out) ''ERROR:''"
      "verify_created E (path_join E dir name)
         \<lparr>files = files s ++ proc_writes E
              (trace s @ [EnsureDir (Resolved dir), GenFilename ''png'' (Resolved name)])
              ''powershell.exe'' (save_command (path_join E dir name)),
          trace = trace s @ [EnsureDir (Resolved dir), GenFilename ''png'' (Resolved name),
            Exec ''powershell.exe'' (save_command (path_join E dir name)) (Resolved out)]\<rparr>
       = (r, s')"
proof (cases "dir_provider E (trace s)")
  case (Rejected e)
  with run that(1) show ?thesis
    by (auto simp: saveClipboardImageWindows_def ensureClipboardDir_def bind_io_def Let_def)
next
  case dir: (Resolved dir)
  show ?thesis
  proof (cases "name_generator E (trace s @ [EnsureDir (Resolved dir)]) ''png''")
    case (Rejected e)
    with run dir that(2) show ?thesis
      by (auto simp: saveClipboardImageWindows_def ensureClipboardDir_def
          generateClipboardFilename_def bind_io_def Let_def)
  next
    case name: (Resolved name)
    let ?p = "path_join E dir name"
    let ?h = "trace s @ [EnsureDir (Resolved dir), GenFilename ''png'' (Resolved name)]"
    show ?thesis
    proof (cases "proc_text E ?h ''powershell.exe'' (save_command ?p)")
      case (Rejected e)
      with run dir name that(3) [of dir name e] show ?thesis
        by (auto simp: saveClipboardImageWindows_def runPowerShell_def save_command_def io_defs Let_def
            split: option.splits)
    next
      case out: (Resolved out)
      let ?s3 = "\<lparr>files = files s ++ proc_writes E ?h ''powershell.exe'' (save_command ?p),
          trace = ?h @ [Exec ''powershell.exe'' (save_command ?p) (Resolved out)]\<rparr>"
      obtain res sv where v: "verify_created E ?p ?s3 = (Resolved res, sv)"
        using verify_created_returns [of E ?p ?s3] by (cases "verify_created E ?p ?s3") auto
      with run dir name out that(4) [of dir name out] that(5) [of dir name out] that(6) [of dir name out]
      show ?thesis
        by (cases s)
           (auto simp: saveClipboardImageWindows_def runPowerShell_def save_command_def
            ensureClipboardDir_def generateClipboardFilename_def execFileAsync_def bind_io_def
            return_io_def try_catch_def Let_def
            split: if_splits)
    qed
  qed
qed

lemma in_set_last_or_butlast:
  "xs \<noteq> [] \<Longrightarrow> x \<in> set xs \<longleftrightarrow> x = last xs \<or> x \<in> set (butlast xs)"
  by (cases xs rule: rev_cases) auto

subsection \<open>Successful runs\<close>

lemma fetched_bytes_append: "fetched_bytes (xs @ ys) = fetched_bytes xs @ fetched_bytes ys"
  by (induction xs rule: fetched_bytes.induct) auto

lemma fetched_bytes_none:
  "list_all (\<lambda>ev. is_which ev \<or> is_fs_event ev) evs \<Longrightarrow> fetched_bytes evs = []"
  by (induction evs rule: fetched_bytes.induct) auto

lemma wayland_block_bytes:
  assumes "save_wayland_block E None f s = (r, s')"
  shows "\<exists>evs. trace s' = trace s @ evs \<and>
     (case r of
        Resolved (Continue d' f') \<Rightarrow> fetched_bytes evs = (case d' of None \<Rightarrow> [] | Some data \<Rightarrow> [data])
      | _ \<Rightarrow> fetched_bytes evs = [])"
  using assms by (cases rule: save_wayland_block_cases) auto

lemma xclip_block_bytes:
  assumes "save_xclip_block E None f s = (r, s')"
  shows "\<exists>evs. trace s' = trace s @ evs \<and>
     (case r of
        Resolved (Continue d' f') \<Rightarrow> fetched_bytes evs = (case d' of None \<Rightarrow> [] | Some data \<Rightarrow> [data])
      | _ \<Rightarrow> fetched_bytes evs = [])"
  using assms by (cases rule: save_xclip_block_cases) auto

lemma finish_success:
  assumes "save_finish E dir d f s = (Resolved (Success p), s')"
  shows "\<exists>data evs. d = Some data \<and> data \<noteq> [] \<and> files s' p = Some data
     \<and> trace s' = trace s @ evs \<and> fetched_bytes evs = []"
  using assms
proof (cases rule: save_finish_cases)
  case (persist data name)
  let ?s = "s\<lparr>trace := trace s @ [GenFilename f (Resolved name)]\<rparr>"
  from write_and_verify_success [OF persist(4)]
  have 1: "files s' p = Some data" "data \<noteq> []" by simp_all
  from write_and_verify_trace [of E "path_join E dir name" data ?s] persist(4)
  obtain evs where 2: "trace s' = trace s @ GenFilename f (Resolved name) # evs"
    "list_all is_fs_event evs" by auto
  from 2(2) have "fetched_bytes evs = []"
    by (intro fetched_bytes_none) (auto simp: list_all_iff)
  with 1 2 persist(1) show ?thesis by auto
qed (auto simp: no_tool_message_def no_image_message_def)

lemma save_linux_success:
  assumes run: "saveClipboardImageLinux E s = (Resolved (Success p), s')"
  shows "\<exists>data. fetched_bytes (new_events s (Resolved (Success p), s')) = [data]
     \<and> files s' p = Some data \<and> data \<noteq> []"
  using run
proof (cases rule: saveClipboardImageLinux_cases)
  case (wayland_returned dir res)
  from wayland_returned(2) show ?thesis
    by (cases rule: save_wayland_block_cases) (use wayland_returned(3) in auto)
next
  case (xclip_returned dir d f s1 res)
  from xclip_returned(3) show ?thesis
    by (cases rule: save_xclip_block_cases) (use xclip_returned(4) in auto)
next
  case (finished dir d f s1 d' f' s2)
  from finish_success [OF finished(4)] obtain data evs3 where
    3: "d' = Some data" "data \<noteq> []" "files s' p = Some data" "trace s' = trace s2 @ evs3"
    "fetched_bytes evs3 = []" by auto
  from wayland_block_bytes [OF finished(2)] obtain evs1 where
    1: "trace s1 = trace s @ EnsureDir (Resolved dir) # evs1"
    "fetched_bytes evs1 = (case d of None \<Rightarrow> [] | Some data \<Rightarrow> [data])" by auto
  show ?thesis
  proof (cases d)
    case None
    from xclip_block_bytes [OF finished(3) [unfolded None]] 3(1) obtain evs2 where
      "trace s2 = trace s1 @ evs2" "fetched_bytes evs2 = [data]" by auto
    with 1 3 None show ?thesis
      by (auto simp: new_events_def fetched_bytes_append)
  next
    case (Some data0)
    with finished(3) have "d' = d" "trace s2 = trace s1"
      by (cases rule: save_xclip_block_cases, auto)+
    with 1 3 Some show ?thesis
      by (auto simp: new_events_def fetched_bytes_append)
  qed
qed simp

lemma save_windows_success:
  assumes run: "saveClipboardImageWindows E s = (Resolved (Success p), s')"
  shows "\<exists>data. files s' p = Some data \<and> data \<noteq> []"
  using run
proof (cases rule: saveClipboardImageWindows_cases)
  case (verified dir name out)
  from verify_created_success [OF verified(6)] show ?thesis
    by (elim exE conjE) simp
qed (simp_all add: no_image_message_def)

subsection \<open>Lower case\<close>

lemma of_char_lowerChar:
  "(of_char (lowerChar c) :: nat) =
     (let n = of_char c in
      if (65 \<le> n \<and> n \<le> 90) \<or> (192 \<le> n \<and> n \<le> 222 \<and> n \<noteq> 215) then n + 32 else n)"
  by (auto simp: lowerChar_def Let_def)

lemma lowerChar_eq_iff:
  assumes "(of_char l :: nat) = k + 32" "65 \<le> k" "k \<le> 90" "(of_char u :: nat) = k"
  shows "lowerChar c = l \<longleftrightarrow> c = l \<or> c = u"
proof -
  have "lowerChar c = l \<longleftrightarrow> (of_char (lowerChar c) :: nat) = of_char l"
    by (simp only: of_char_eq_iff)
  also have "\<dots> \<longleftrightarrow> (of_char c :: nat) = of_char l \<or> (of_char c :: nat) = of_char u"
    using assms by (auto simp: of_char_lowerChar Let_def)
  also have "\<dots> \<longleftrightarrow> c = l \<or> c = u"
    by (simp only: of_char_eq_iff)
  finally show ?thesis .
qed

lemma lowerChar_true:
  "lowerChar c = CHR ''t'' \<longleftrightarrow> c = CHR ''t'' \<or> c = CHR ''T''"
  "lowerChar c = CHR ''r'' \<longleftrightarrow> c = CHR ''r'' \<or> c = CHR ''R''"
  "lowerChar c = CHR ''u'' \<longleftrightarrow> c = CHR ''u'' \<or> c = CHR ''U''"
  "lowerChar c = CHR ''e'' \<longleftrightarrow> c = CHR ''e'' \<or> c = CHR ''E''"
  by (rule lowerChar_eq_iff [where k = 84], simp_all)
     (rule lowerChar_eq_iff [where k = 82], simp_all,
      rule lowerChar_eq_iff [where k = 85], simp_all,
      rule lowerChar_eq_iff [where k = 69], simp_all)

lemma length_four: "length t = 4 \<longleftrightarrow> (\<exists>a b c d. t = [a, b, c, d])"
  by (auto simp: numeral_eq_Suc length_Suc_conv)

lemma toLowerCase_true: "toLowerCase t = ''true'' \<longleftrightarrow> true_ignoring_case t"
proof
  assume "toLowerCase t = ''true''"
  then show "true_ignoring_case t"
    by (auto simp: toLowerCase_def true_ignoring_case_def map_eq_Cons_conv lowerChar_true)
next
  assume t: "true_ignoring_case t"
  then obtain a b c d where "t = [a, b, c, d]"
    unfolding true_ignoring_case_def length_four by blast
  with t show "toLowerCase t = ''true''"
    by (auto simp: toLowerCase_def true_ignoring_case_def lowerChar_true)
qed

subsection \<open>Runs on the concrete environments\<close>

lemma desktop_sel:
  "WAYLAND_DISPLAY (desktop display installed listing fetch) = display"
  "proc_text (desktop display installed listing fetch) h cmd args =
     (if cmd = ''which'' then
        (case args of
           [tool] \<Rightarrow>
             if tool \<in> set installed then Resolved (''/usr/bin/'' @ tool)
             else Rejected ''Command failed: which''
         | _ \<Rightarrow> Rejected ''Command failed: which'')
      else if cmd \<in> set installed then listing cmd
      else Rejected ''spawn ENOENT'')"
  "proc_buffer (desktop display installed listing fetch) h cmd args maxBuffer =
     (if cmd \<in> set installed then fetch cmd else Rejected ''spawn ENOENT'')"
  "proc_writes (desktop display installed listing fetch) h cmd args = Map.empty"
  "dir_provider (desktop display installed listing fetch) h = Resolved ''/tmp/kilocode-clipboard''"
  "name_generator (desktop display installed listing fetch) h format =
     Resolved (''clipboard-1.'' @ format)"
  "path_join (desktop display installed listing fetch) dir name = dir @ ''/'' @ name"
  "write_fault (desktop display installed listing fetch) h p data = None"
  "stat_fault (desktop display installed listing fetch) h p = None"
  "unlink_fault (desktop display installed listing fetch) h p = None"
  by (simp_all add: desktop_def)

lemma windows_sel:
  "WAYLAND_DISPLAY (windows answer saved) = None"
  "proc_text (windows answer saved) h cmd args =
     (if cmd = ''powershell.exe'' then answer else Rejected ''spawn ENOENT'')"
  "proc_buffer (windows answer saved) h cmd args maxBuffer = Rejected ''spawn ENOENT''"
  "proc_writes (windows answer saved) h cmd args =
     (if cmd = ''powershell.exe'' then saved else Map.empty)"
  "dir_provider (windows answer saved) h = Resolved ''C:/Temp/kilocode-clipboard''"
  "name_generator (windows answer saved) h format = Resolved (''clipboard-1.'' @ format)"
  "path_join (windows answer saved) dir name = dir @ ''/'' @ name"
  "write_fault (windows answer saved) h p data = None"
  "stat_fault (windows answer saved) h p = None"
  "unlink_fault (windows answer saved) h p = None"
  by (simp_all add: windows_def)

lemma fresh_sel: "trace fresh = []" "files fresh = Map.empty"
  by (simp_all add: fresh_def)

lemma faulty_disk_sel:
  "WAYLAND_DISPLAY (faulty_disk w u) = None"
  "proc_text (faulty_disk w u) = proc_text (png_without_wayland None)"
  "proc_buffer (faulty_disk w u) = proc_buffer (png_without_wayland None)"
  "proc_writes (faulty_disk w u) = proc_writes (png_without_wayland None)"
  "dir_provider (faulty_disk w u) = dir_provider (png_without_wayland None)"
  "name_generator (faulty_disk w u) = name_generator (png_without_wayland None)"
  "path_join (faulty_disk w u) = path_join (png_without_wayland None)"
  "write_fault (faulty_disk w u) h p data = w"
  "stat_fault (faulty_disk w u) = stat_fault (png_without_wayland None)"
  "unlink_fault (faulty_disk w u) h p = u"
  by (simp_all add: faulty_disk_def png_without_wayland_def desktop_sel)

text \<open>An X11 session where wl-paste is installed all the same: detection, then saving.\<close>
lemma png_without_wayland_has:
  "hasClipboardImageLinux (png_without_wayland display) fresh =
     (if display = None \<or> display = Some [] then
       (Resolved True,
        \<lparr>files = Map.empty,
         trace = [Exec ''which'' [''xclip''] (Resolved ''/usr/bin/xclip''),
                  Exec ''xclip'' xclip_targets_args (Resolved ''image/png'')]\<rparr>)
      else
       (Resolved True,
        \<lparr>files = Map.empty,
         trace = [Exec ''which'' [''wl-paste''] (Resolved ''/usr/bin/wl-paste''),
                  Exec ''wl-paste'' [''--list-types''] (Resolved ''image/png'')]\<rparr>))"
  by (cases display)
     (simp_all add: png_without_wayland_def desktop_sel fresh_def has_linux_defs probe_defs io_defs
      Let_def)

lemma png_without_wayland_save:
  "saveClipboardImageLinux (png_without_wayland None) fresh =
       (Resolved (Success ''/tmp/kilocode-clipboard/clipboard-1.png''),
        \<lparr>files = [''/tmp/kilocode-clipboard/clipboard-1.png'' \<mapsto> png_bytes],
         trace = [EnsureDir (Resolved ''/tmp/kilocode-clipboard''),
                  Exec ''which'' [''xclip''] (Resolved ''/usr/bin/xclip''),
                  Exec ''xclip'' xclip_targets_args (Resolved ''image/png''),
                  ExecBuffer ''xclip'' [''-selection'', ''clipboard'', ''-t'', ''image/png'', ''-o'']
                    max_image_bytes (Resolved png_bytes),
                  GenFilename ''png'' (Resolved ''clipboard-1.png''),
                  WriteFile ''/tmp/kilocode-clipboard/clipboard-1.png'' png_bytes (Resolved ()),
                  Stat ''/tmp/kilocode-clipboard/clipboard-1.png'' (Resolved 4)]\<rparr>)"
  by (simp add: png_without_wayland_def desktop_sel fresh_def save_linux_defs probe_defs io_defs
      select_format_def Let_def png_bytes_def)

lemma faulty_disk_run:
  "saveClipboardImageLinux (faulty_disk (Some (''ENOSPC: no space left on device, write'', Some 2)) u) fresh =
     (Resolved (Failure ''ENOSPC: no space left on device, write''),
      \<lparr>files = (case u of None \<Rightarrow> Map.empty
                 | Some e \<Rightarrow> [''/tmp/kilocode-clipboard/clipboard-1.png'' \<mapsto> [0x89, 0x50]]),
       trace = [EnsureDir (Resolved ''/tmp/kilocode-clipboard''),
                Exec ''which'' [''xclip''] (Resolved ''/usr/bin/xclip''),
                Exec ''xclip'' xclip_targets_args (Resolved ''image/png''),
                ExecBuffer ''xclip'' [''-selection'', ''clipboard'', ''-t'', ''image/png'', ''-o'']
                  max_image_bytes (Resolved png_bytes),
                GenFilename ''png'' (Resolved ''clipboard-1.png''),
                WriteFile ''/tmp/kilocode-clipboard/clipboard-1.png'' png_bytes
                  (Rejected ''ENOSPC: no space left on device, write''),
                Unlink ''/tmp/kilocode-clipboard/clipboard-1.png''
                  (case u of None \<Rightarrow> Resolved () | Some e \<Rightarrow> Rejected e)]\<rparr>)"
  by (cases u)
     (simp_all add: faulty_disk_sel png_without_wayland_def desktop_sel fresh_def save_linux_defs
      probe_defs io_defs select_format_def Let_def png_bytes_def)

lemma no_staging_dir_run:
  "saveClipboardImageLinux (no_staging_dir E) fresh =
     (Rejected ''EACCES: permission denied, mkdir'',
      \<lparr>files = Map.empty, trace = [EnsureDir (Rejected ''EACCES: permission denied, mkdir'')]\<rparr>)"
  "saveClipboardImageWindows (no_staging_dir E) fresh =
     (Rejected ''EACCES: permission denied, mkdir'',
      \<lparr>files = Map.empty, trace = [EnsureDir (Rejected ''EACCES: permission denied, mkdir'')]\<rparr>)"
  by (simp_all add: no_staging_dir_def saveClipboardImageLinux_def saveClipboardImageWindows_def
      ensureClipboardDir_def bind_io_def fresh_def Let_def)

lemma png_on_windows_run:
  "saveClipboardImageWindows png_on_windows fresh =
     (Resolved (Success windows_png_path),
      \<lparr>files = [windows_png_path \<mapsto> png_bytes],
       trace = [EnsureDir (Resolved ''C:/Temp/kilocode-clipboard''),
                GenFilename ''png'' (Resolved ''clipboard-1.png''),
                Exec ''powershell.exe'' (save_command windows_png_path) (Resolved (''SUCCESS'' @ crlf)),
                Stat windows_png_path (Resolved 4)]\<rparr>)"
  by (simp add: png_on_windows_def windows_sel fresh_def save_windows_defs io_defs Let_def
      save_command_def windows_png_path_def crlf_def trim_def isWhiteSpace_def png_bytes_def)

lemma no_image_on_windows_run:
  "saveClipboardImageWindows no_image_on_windows fresh =
     (Resolved (Failure ''No image found in clipboard.''),
      \<lparr>files = Map.empty,
       trace = [EnsureDir (Resolved ''C:/Temp/kilocode-clipboard''),
                GenFilename ''png'' (Resolved ''clipboard-1.png''),
                Exec ''powershell.exe'' (save_command windows_png_path)
                  (Resolved (''NO_IMAGE'' @ crlf))]\<rparr>)"
  by (simp add: no_image_on_windows_def windows_sel fresh_def save_windows_defs io_defs Let_def
      save_command_def windows_png_path_def crlf_def trim_def isWhiteSpace_def no_image_message_def)

lemma locked_file_on_windows_run:
  "saveClipboardImageWindows locked_file_on_windows fresh =
     (Resolved (Failure ''Command failed: powershell.exe''),
      \<lparr>files = [windows_png_path \<mapsto> [0x89, 0x50]],
       trace = [EnsureDir (Resolved ''C:/Temp/kilocode-clipboard''),
                GenFilename ''png'' (Resolved ''clipboard-1.png''),
                Exec ''powershell.exe'' (save_command windows_png_path)
                  (Rejected ''Command failed: powershell.exe''),
                Unlink windows_png_path (Rejected ''EBUSY: resource busy or locked, unlink'')]\<rparr>)"
  by (simp add: locked_file_on_windows_def windows_sel fresh_def save_windows_defs io_defs Let_def
      save_command_def windows_png_path_def)

lemma empty_file_on_windows_run:
  "saveClipboardImageWindows empty_file_on_windows fresh =
     (Resolved (Failure ''Failed to write image data to file.''),
      \<lparr>files = Map.empty,
       trace = [EnsureDir (Resolved ''C:/Temp/kilocode-clipboard''),
                GenFilename ''png'' (Resolved ''clipboard-1.png''),
                Exec ''powershell.exe'' (save_command windows_png_path) (Resolved (''SUCCESS'' @ crlf)),
                Stat windows_png_path (Resolved 0),
                Unlink windows_png_path (Resolved ())]\<rparr>)"
  by (simp add: empty_file_on_windows_def windows_sel fresh_def save_windows_defs io_defs Let_def
      save_command_def windows_png_path_def crlf_def trim_def isWhiteSpace_def)

lemma windows_has_run:
  "hasClipboardImageWindows (windows answer saved) fresh =
     (Resolved (case answer of Resolved out \<Rightarrow> toLowerCase (trim out) = ''true'' | Rejected e \<Rightarrow> False),
      \<lparr>files = saved,
       trace = [Exec ''powershell.exe'' (powershell_args contains_image_script) answer]\<rparr>)"
  by (cases answer)
     (simp_all add: windows_sel fresh_def hasClipboardImageWindows_def runPowerShell_def io_defs Let_def)

subsection \<open>C1: a listing without image types ends the run\<close>

lemma is_which_not_empty_listing: "is_which ev \<Longrightarrow> \<not> empty_listing ev"
  by (cases ev rule: empty_listing.cases) auto

lemma is_fs_not_empty_listing: "is_fs_event ev \<Longrightarrow> \<not> empty_listing ev"
  by (cases ev rule: empty_listing.cases) auto

lemma wayland_block_listing:
  assumes "save_wayland_block E d f s = (r, s')"
  shows "\<exists>evs. trace s' = trace s @ evs \<and>
     (case r of
        Resolved (Return res) \<Rightarrow>
          res = Failure no_image_message \<and> evs \<noteq> [] \<and> empty_listing (last evs)
          \<and> list_all (\<lambda>ev. \<not> empty_listing ev) (butlast evs)
      | _ \<Rightarrow> list_all (\<lambda>ev. \<not> empty_listing ev) evs)"
  using assms by (cases rule: save_wayland_block_cases) auto

lemma xclip_block_listing:
  assumes "save_xclip_block E d f s = (r, s')"
  shows "\<exists>evs. trace s' = trace s @ evs \<and>
     (case r of
        Resolved (Return res) \<Rightarrow>
          res = Failure no_image_message \<and> evs \<noteq> [] \<and> empty_listing (last evs)
          \<and> list_all (\<lambda>ev. \<not> empty_listing ev) (butlast evs)
      | _ \<Rightarrow> list_all (\<lambda>ev. \<not> empty_listing ev) evs)"
  using assms by (cases rule: save_xclip_block_cases) auto

lemma finish_listing:
  assumes "save_finish E dir d f s = (r, s')"
  shows "\<exists>evs. trace s' = trace s @ evs \<and> list_all (\<lambda>ev. \<not> empty_listing ev) evs"
  using assms
proof (cases rule: save_finish_cases)
  case (some_tool evs)
  then show ?thesis by (auto simp: list_all_iff is_which_not_empty_listing)
next
  case (persist data name)
  from write_and_verify_trace [of E "path_join E dir name" data
      "s\<lparr>trace := trace s @ [GenFilename f (Resolved name)]\<rparr>"] persist
  show ?thesis by (auto simp: list_all_iff is_fs_not_empty_listing)
qed auto

text \<open>
  C1.  In every run of \<open>saveClipboardImageLinux\<close>: when the type listing of wl-paste
  (\<^verbatim>\<open>wl-paste --list-types\<close>) or of xclip (\<^verbatim>\<open>xclip -selection clipboard -t TARGETS -o\<close>)
  succeeds and its output names none of image/png, image/jpeg, image/gif, the function
  returns the failure "No image found in clipboard." and that listing is the last external
  request of the run: no later backend is probed, asked for its types or fetched from.
\<close>
theorem no_image_is_definitive:
  assumes run: "saveClipboardImageLinux E s = (r, s')"
    and ev: "ev = Exec ''wl-paste'' [''--list-types''] (Resolved types)
           \<or> ev = Exec ''xclip'' xclip_targets_args (Resolved types)"
    and occurs: "ev \<in> set (new_events s (r, s'))"
    and none: "\<not> str_includes types ''image/png''" "\<not> str_includes types ''image/jpeg''"
      "\<not> str_includes types ''image/gif''"
  shows "r = Resolved (Failure ''No image found in clipboard.'') \<and> last (trace s') = ev"
proof -
  from ev none have el: "empty_listing ev"
    by (auto simp: select_format_def)
  from run show ?thesis
  proof (cases rule: saveClipboardImageLinux_cases)
    case (no_dir e)
    with occurs el show ?thesis by (auto simp: new_events_def)
  next
    case (wayland_returned dir res)
    from wayland_block_listing [OF wayland_returned(2)] obtain evs where
      "trace s' = trace s @ EnsureDir (Resolved dir) # evs" "res = Failure no_image_message" "evs \<noteq> []"
      "empty_listing (last evs)" "list_all (\<lambda>ev. \<not> empty_listing ev) (butlast evs)"
      by auto
    with occurs el wayland_returned(3) show ?thesis
      by (auto simp: new_events_def no_image_message_def list_all_iff in_set_last_or_butlast)
  next
    case (xclip_returned dir d f s1 res)
    from wayland_block_listing [OF xclip_returned(2)] obtain evs1 where
      1: "trace s1 = trace s @ EnsureDir (Resolved dir) # evs1" "list_all (\<lambda>ev. \<not> empty_listing ev) evs1"
      by auto
    from xclip_block_listing [OF xclip_returned(3)] obtain evs where
      "trace s' = trace s1 @ evs" "res = Failure no_image_message" "evs \<noteq> []"
      "empty_listing (last evs)" "list_all (\<lambda>ev. \<not> empty_listing ev) (butlast evs)"
      by auto
    with 1 occurs el xclip_returned(4) show ?thesis
      by (auto simp: new_events_def no_image_message_def list_all_iff in_set_last_or_butlast)
  next
    case (finished dir d f s1 d' f' s2)
    from wayland_block_listing [OF finished(2)] obtain evs1 where
      1: "trace s1 = trace s @ EnsureDir (Resolved dir) # evs1" "list_all (\<lambda>ev. \<not> empty_listing ev) evs1"
      by auto
    from xclip_block_listing [OF finished(3)] obtain evs2 where
      2: "trace s2 = trace s1 @ evs2" "list_all (\<lambda>ev. \<not> empty_listing ev) evs2"
      by auto
    from finish_listing [OF finished(4)] obtain evs3 where
      3: "trace s' = trace s2 @ evs3" "list_all (\<lambda>ev. \<not> empty_listing ev) evs3"
      by auto
    from 1 2 3 occurs el show ?thesis
      by (auto simp: new_events_def list_all_iff)
  qed
qed

text \<open>
  Witness: wl-paste comes first and lists text only; xclip is installed and would deliver
  a PNG, and is never asked.
\<close>
lemma text_only_on_wayland_run:
  "saveClipboardImageLinux text_only_on_wayland fresh =
     (Resolved (Failure ''No image found in clipboard.''),
      \<lparr>files = Map.empty,
       trace = [EnsureDir (Resolved ''/tmp/kilocode-clipboard''),
                Exec ''which'' [''wl-paste''] (Resolved ''/usr/bin/wl-paste''),
                Exec ''wl-paste'' [''--list-types''] (Resolved ''text/plain'')]\<rparr>)"
  by (simp add: text_only_on_wayland_def desktop_sel fresh_def save_linux_defs probe_defs io_defs
      select_format_def no_image_message_def Let_def)

theorem no_image_is_definitive_witness:
  "saveClipboardImageLinux text_only_on_wayland fresh =
     (Resolved (Failure ''No image found in clipboard.''),
      \<lparr>files = Map.empty,
       trace = [EnsureDir (Resolved ''/tmp/kilocode-clipboard''),
                Exec ''which'' [''wl-paste''] (Resolved ''/usr/bin/wl-paste''),
                Exec ''wl-paste'' [''--list-types''] (Resolved ''text/plain'')]\<rparr>)
   \<and> \<not> str_includes ''text/plain'' ''image/png''
   \<and> \<not> str_includes ''text/plain'' ''image/jpeg''
   \<and> \<not> str_includes ''text/plain'' ''image/gif''
   \<and> last [EnsureDir (Resolved ''/tmp/kilocode-clipboard''),
            Exec ''which'' [''wl-paste''] (Resolved ''/usr/bin/wl-paste''),
            Exec ''wl-paste'' [''--list-types''] (Resolved ''text/plain'')]
       = Exec ''wl-paste'' [''--list-types''] (Resolved ''text/plain'')"
  using no_image_is_definitive [OF text_only_on_wayland_run,
      of "Exec ''wl-paste'' [''--list-types''] (Resolved ''text/plain'')" "''text/plain''"]
    text_only_on_wayland_run
  by (simp add: new_events_def fresh_def)

subsection \<open>C2: what an exit leaves on disk\<close>

lemma is_which_is_process: "is_which ev \<Longrightarrow> is_process ev"
  by (cases ev rule: is_which.cases) auto

lemma is_process_simps:
  "is_process ev \<Longrightarrow> ev \<noteq> EnsureDir d"
  "is_process ev \<Longrightarrow> ev \<noteq> GenFilename f n"
  "is_process ev \<Longrightarrow> \<not> is_fs_event ev"
  by (cases ev rule: is_process.cases; simp)+

lemma is_fs_event_simps:
  "is_fs_event ev \<Longrightarrow> ev \<noteq> EnsureDir d"
  "is_fs_event ev \<Longrightarrow> ev \<noteq> GenFilename f n"
  by (cases ev rule: is_fs_event.cases; simp)+

lemma wayland_block_processes:
  assumes "save_wayland_block E d f s = (r, s')"
  shows "\<exists>evs. trace s' = trace s @ evs \<and> list_all is_process evs"
  using assms by (cases rule: save_wayland_block_cases) auto

lemma xclip_block_processes:
  assumes "save_xclip_block E d f s = (r, s')"
  shows "\<exists>evs. trace s' = trace s @ evs \<and> list_all is_process evs"
  using assms by (cases rule: save_xclip_block_cases) auto

lemma finish_failure:
  assumes run: "save_finish E dir d f s = (Resolved (Failure e), s')"
  shows "(\<exists>evs. trace s' = trace s @ evs \<and> list_all is_process evs)
     \<or> (\<exists>name evs. trace s' = trace s @ GenFilename f (Resolved name) # evs \<and> list_all is_fs_event evs
           \<and> ((\<forall>h q. unlink_fault E h q = None) \<longrightarrow> files s' (path_join E dir name) = None))"
  using run
proof (cases rule: save_finish_cases)
  case (some_tool evs)
  then show ?thesis by (auto simp: list_all_iff is_which_is_process)
next
  case (persist data name)
  let ?s = "s\<lparr>trace := trace s @ [GenFilename f (Resolved name)]\<rparr>"
  from write_and_verify_trace [of E "path_join E dir name" data ?s] persist(4)
  obtain evs where "trace s' = trace s @ GenFilename f (Resolved name) # evs" "list_all is_fs_event evs"
    by auto
  moreover have "files s' (path_join E dir name) = None" if "\<forall>h q. unlink_fault E h q = None"
    using write_and_verify_failure [OF persist(4)] that by simp
  ultimately show ?thesis by blast
qed auto

lemma save_linux_failure:
  assumes run: "saveClipboardImageLinux E s = (Resolved (Failure e), s')"
  shows "list_all is_process (tl (new_events s (Resolved (Failure e), s')))
     \<or> (\<exists>dir pre f name evs.
           new_events s (Resolved (Failure e), s') =
             EnsureDir (Resolved dir) # pre @ GenFilename f (Resolved name) # evs
           \<and> list_all is_process pre \<and> list_all is_fs_event evs
           \<and> ((\<forall>h q. unlink_fault E h q = None) \<longrightarrow> files s' (path_join E dir name) = None))"
  using run
proof (cases rule: saveClipboardImageLinux_cases)
  case (wayland_returned dir res)
  from wayland_block_processes [OF wayland_returned(2)] show ?thesis
    by (auto simp: new_events_def)
next
  case (xclip_returned dir d f s1 res)
  from wayland_block_processes [OF xclip_returned(2)] xclip_block_processes [OF xclip_returned(3)]
  show ?thesis
    by (auto simp: new_events_def)
next
  case (finished dir d f s1 d' f' s2)
  from wayland_block_processes [OF finished(2)] obtain evs1 where
    1: "trace s1 = trace s @ EnsureDir (Resolved dir) # evs1" "list_all is_process evs1" by auto
  from xclip_block_processes [OF finished(3)] obtain evs2 where
    2: "trace s2 = trace s1 @ evs2" "list_all is_process evs2" by auto
  from finish_failure [OF finished(4)] show ?thesis
  proof (elim disjE exE conjE)
    fix evs assume "trace s' = trace s2 @ evs" "list_all is_process evs"
    with 1 2 show ?thesis by (auto simp: new_events_def)
  next
    fix name evs
    assume 3: "trace s' = trace s2 @ GenFilename f' (Resolved name) # evs" "list_all is_fs_event evs"
      "(\<forall>h q. unlink_fault E h q = None) \<longrightarrow> files s' (path_join E dir name) = None"
    have "new_events s (Resolved (Failure e), s') =
        EnsureDir (Resolved dir) # (evs1 @ evs2) @ GenFilename f' (Resolved name) # evs"
      using 1 2 3(1) by (simp add: new_events_def)
    moreover have "list_all is_process (evs1 @ evs2)" using 1 2 by simp
    ultimately show ?thesis using 3(2,3) by blast
  qed
qed simp

lemma save_windows_failure:
  assumes run: "saveClipboardImageWindows E s = (Resolved (Failure e), s')"
  shows "\<exists>dir name a evs.
     new_events s (Resolved (Failure e), s') =
       EnsureDir (Resolved dir) # GenFilename ''png'' (Resolved name)
         # Exec ''powershell.exe'' (save_command (path_join E dir name)) a # evs
     \<and> list_all is_fs_event evs
     \<and> ((\<forall>out. a = Resolved out \<longrightarrow> \<not> startsWith (trim out) ''ERROR:'') \<longrightarrow>
        (\<forall>h q. unlink_fault E h q = None) \<longrightarrow> (\<forall>h q. stat_fault E h q = None) \<longrightarrow>
        (\<forall>out. a = Resolved out \<longrightarrow> trim out = ''NO_IMAGE'' \<longrightarrow>
           (files s ++ proc_writes E
              (trace s @ [EnsureDir (Resolved dir), GenFilename ''png'' (Resolved name)])
              ''powershell.exe'' (save_command (path_join E dir name))) (path_join E dir name) = None) \<longrightarrow>
        files s' (path_join E dir name) = None)"
  using run
proof (cases rule: saveClipboardImageWindows_cases)
  case (runner_failed dir name e' u)
  then show ?thesis
    by (intro exI [of _ dir] exI [of _ name] exI [of _ "Rejected e'"]
          exI [of _ "[Unlink (path_join E dir name) u]"])
       (simp add: new_events_def)
next
  case (no_image dir name out)
  then show ?thesis
    by (intro exI [of _ dir] exI [of _ name] exI [of _ "Resolved out"] exI [of _ "[]"])
       (simp add: new_events_def)
next
  case (script_error dir name out)
  then show ?thesis
    by (intro exI [of _ dir] exI [of _ name] exI [of _ "Resolved out"] exI [of _ "[]"])
       (simp add: new_events_def)
next
  case (verified dir name out)
  let ?p = "path_join E dir name"
  let ?h = "trace s @ [EnsureDir (Resolved dir), GenFilename ''png'' (Resolved name)]"
  let ?s3 = "\<lparr>files = files s ++ proc_writes E ?h ''powershell.exe'' (save_command ?p),
      trace = ?h @ [Exec ''powershell.exe'' (save_command ?p) (Resolved out)]\<rparr>"
  from verify_created_trace [of E ?p ?s3] verified(6) obtain evs where
    t: "trace s' = trace ?s3 @ evs" "list_all is_fs_event evs" by auto
  have "files s' ?p = None"
    if "\<forall>h q. unlink_fault E h q = None" "\<forall>h q. stat_fault E h q = None"
    using verify_created_failure [OF verified(6)] that by simp
  with t show ?thesis
    by (intro exI [of _ dir] exI [of _ name] exI [of _ "Resolved out"] exI [of _ evs])
       (simp add: new_events_def)
qed simp_all

text \<open>
  C2 (as the code has it).  On both platforms a success names a file that exists and is
  not empty.  A Linux failure either touched no file at all (after \<^verbatim>\<open>ensureClipboardDir\<close>
  the run only started processes) or came after the output path was generated, and then
  no file remains at that path provided \<^verbatim>\<open>unlink\<close> does not fail.  A Windows failure
  that is not the one returned for an \<^verbatim>\<open>ERROR:\<close> line of the script leaves no file at
  the generated path provided \<^verbatim>\<open>unlink\<close> and \<^verbatim>\<open>stat\<close> do not fail; where the script
  printed \<^verbatim>\<open>NO_IMAGE\<close> (it exits before it saves) this holds provided no file was at
  the path when PowerShell ended.
\<close>
theorem exits_leave_no_partial_file:
  "(\<forall>p s'. saveClipboardImageLinux E s = (Resolved (Success p), s') \<longrightarrow>
       (\<exists>data. files s' p = Some data \<and> data \<noteq> []))
   \<and> (\<forall>p s'. saveClipboardImageWindows E s = (Resolved (Success p), s') \<longrightarrow>
       (\<exists>data. files s' p = Some data \<and> data \<noteq> []))
   \<and> (\<forall>e s'. saveClipboardImageLinux E s = (Resolved (Failure e), s') \<longrightarrow>
       list_all is_process (tl (new_events s (Resolved (Failure e), s')))
       \<or> (\<exists>dir pre f name evs.
             new_events s (Resolved (Failure e), s') =
               EnsureDir (Resolved dir) # pre @ GenFilename f (Resolved name) # evs
             \<and> list_all is_process pre \<and> list_all is_fs_event evs
             \<and> ((\<forall>h q. unlink_fault E h q = None) \<longrightarrow> files s' (path_join E dir name) = None)))
   \<and> (\<forall>e s'. saveClipboardImageWindows E s = (Resolved (Failure e), s') \<longrightarrow>
       (\<exists>dir name a evs.
          new_events s (Resolved (Failure e), s') =
            EnsureDir (Resolved dir) # GenFilename ''png'' (Resolved name)
              # Exec ''powershell.exe'' (save_command (path_join E dir name)) a # evs
          \<and> list_all is_fs_event evs
          \<and> ((\<forall>out. a = Resolved out \<longrightarrow> \<not> startsWith (trim out) ''ERROR:'') \<longrightarrow>
             (\<forall>h q. unlink_fault E h q = None) \<longrightarrow> (\<forall>h q. stat_fault E h q = None) \<longrightarrow>
             (\<forall>out. a = Resolved out \<longrightarrow> trim out = ''NO_IMAGE'' \<longrightarrow>
                (files s ++ proc_writes E
                   (trace s @ [EnsureDir (Resolved dir), GenFilename ''png'' (Resolved name)])
                   ''powershell.exe'' (save_command (path_join E dir name))) (path_join E dir name)
                  = None) \<longrightarrow>
             files s' (path_join E dir name) = None)))"
proof (intro conjI allI impI)
  fix p s' assume "saveClipboardImageLinux E s = (Resolved (Success p), s')"
  from save_linux_success [OF this] show "\<exists>data. files s' p = Some data \<and> data \<noteq> []"
    by blast
next
  fix p s' assume "saveClipboardImageWindows E s = (Resolved (Success p), s')"
  from save_windows_success [OF this] show "\<exists>data. files s' p = Some data \<and> data \<noteq> []" .
next
  fix e s' assume "saveClipboardImageLinux E s = (Resolved (Failure e), s')"
  from save_linux_failure [OF this]
  show "list_all is_process (tl (new_events s (Resolved (Failure e), s')))
       \<or> (\<exists>dir pre f name evs.
             new_events s (Resolved (Failure e), s') =
               EnsureDir (Resolved dir) # pre @ GenFilename f (Resolved name) # evs
             \<and> list_all is_process pre \<and> list_all is_fs_event evs
             \<and> ((\<forall>h q. unlink_fault E h q = None) \<longrightarrow> files s' (path_join E dir name) = None))" .
next
  fix e s' assume "saveClipboardImageWindows E s = (Resolved (Failure e), s')"
  from save_windows_failure [OF this]
  show "\<exists>dir name a evs.
          new_events s (Resolved (Failure e), s') =
            EnsureDir (Resolved dir) # GenFilename ''png'' (Resolved name)
              # Exec ''powershell.exe'' (save_command (path_join E dir name)) a # evs
          \<and> list_all is_fs_event evs
          \<and> ((\<forall>out. a = Resolved out \<longrightarrow> \<not> startsWith (trim out) ''ERROR:'') \<longrightarrow>
             (\<forall>h q. unlink_fault E h q = None) \<longrightarrow> (\<forall>h q. stat_fault E h q = None) \<longrightarrow>
             (\<forall>out. a = Resolved out \<longrightarrow> trim out = ''NO_IMAGE'' \<longrightarrow>
                (files s ++ proc_writes E
                   (trace s @ [EnsureDir (Resolved dir), GenFilename ''png'' (Resolved name)])
                   ''powershell.exe'' (save_command (path_join E dir name))) (path_join E dir name)
                  = None) \<longrightarrow>
             files s' (path_join E dir name) = None)" .
qed

text \<open>
  The claim as stated fails, because the clean-up is best effort (an error of \<^verbatim>\<open>unlink\<close>
  is ignored).  On Linux \<^verbatim>\<open>writeFile\<close> fails after two bytes and the \<^verbatim>\<open>unlink\<close> that
  follows fails too: a truncated file stays.  On Windows the PowerShell run fails after it
  wrote two bytes and the \<^verbatim>\<open>unlink\<close> that follows fails: the truncated file stays.
\<close>
theorem failure_can_leave_file:
  "fst (saveClipboardImageLinux
        (faulty_disk (Some (''ENOSPC: no space left on device, write'', Some 2))
           (Some ''EPERM: operation not permitted, unlink'')) fresh)
       = Resolved (Failure ''ENOSPC: no space left on device, write'')
   \<and> files (snd (saveClipboardImageLinux
        (faulty_disk (Some (''ENOSPC: no space left on device, write'', Some 2))
           (Some ''EPERM: operation not permitted, unlink'')) fresh))
        ''/tmp/kilocode-clipboard/clipboard-1.png'' = Some [0x89, 0x50]
   \<and> fst (saveClipboardImageWindows locked_file_on_windows fresh)
       = Resolved (Failure ''Command failed: powershell.exe'')
   \<and> files (snd (saveClipboardImageWindows locked_file_on_windows fresh)) windows_png_path
       = Some [0x89, 0x50]"
  by (simp add: faulty_disk_run locked_file_on_windows_run)

text \<open>
  Witness: two successes, a Linux failure whose clean-up works, a Windows run that deletes
  the empty file PowerShell left, and a Windows run where PowerShell found no image.
\<close>
theorem exits_leave_no_partial_file_witness:
  "fst (saveClipboardImageLinux (png_without_wayland None) fresh)
     = Resolved (Success ''/tmp/kilocode-clipboard/clipboard-1.png'')
   \<and> files (snd (saveClipboardImageLinux (png_without_wayland None) fresh))
        ''/tmp/kilocode-clipboard/clipboard-1.png'' = Some png_bytes
   \<and> fst (saveClipboardImageWindows png_on_windows fresh) = Resolved (Success windows_png_path)
   \<and> files (snd (saveClipboardImageWindows png_on_windows fresh)) windows_png_path = Some png_bytes
   \<and> (\<forall>h q. unlink_fault (faulty_disk (Some (''ENOSPC: no space left on device, write'', Some 2)) None) h q
         = None)
   \<and> fst (saveClipboardImageLinux
        (faulty_disk (Some (''ENOSPC: no space left on device, write'', Some 2)) None) fresh)
       = Resolved (Failure ''ENOSPC: no space left on device, write'')
   \<and> files (snd (saveClipboardImageLinux
        (faulty_disk (Some (''ENOSPC: no space left on device, write'', Some 2)) None) fresh))
        ''/tmp/kilocode-clipboard/clipboard-1.png'' = None
   \<and> (\<forall>h q. unlink_fault empty_file_on_windows h q = None)
   \<and> (\<forall>h q. stat_fault empty_file_on_windows h q = None)
   \<and> \<not> startsWith (trim (''SUCCESS'' @ crlf)) ''ERROR:''
   \<and> fst (saveClipboardImageWindows empty_file_on_windows fresh)
       = Resolved (Failure ''Failed to write image data to file.'')
   \<and> files (snd (saveClipboardImageWindows empty_file_on_windows fresh)) windows_png_path = None
   \<and> trim (''NO_IMAGE'' @ crlf) = ''NO_IMAGE''
   \<and> (files fresh ++ proc_writes no_image_on_windows
         [EnsureDir (Resolved ''C:/Temp/kilocode-clipboard''),
          GenFilename ''png'' (Resolved ''clipboard-1.png'')]
         ''powershell.exe'' (save_command windows_png_path)) windows_png_path = None
   \<and> fst (saveClipboardImageWindows no_image_on_windows fresh)
       = Resolved (Failure ''No image found in clipboard.'')
   \<and> files (snd (saveClipboardImageWindows no_image_on_windows fresh)) windows_png_path = None"
proof -
  note linux_success = exits_leave_no_partial_file
    [of "png_without_wayland None" fresh, THEN conjunct1, rule_format, OF png_without_wayland_save]
  note windows_success = exits_leave_no_partial_file
    [of png_on_windows fresh, THEN conjunct2, THEN conjunct1, rule_format, OF png_on_windows_run]
  note linux_failure = exits_leave_no_partial_file
    [of "faulty_disk (Some (''ENOSPC: no space left on device, write'', Some 2)) None" fresh,
     THEN conjunct2, THEN conjunct2, THEN conjunct1, rule_format, OF faulty_disk_run]
  note windows_failure = exits_leave_no_partial_file
    [of empty_file_on_windows fresh,
     THEN conjunct2, THEN conjunct2, THEN conjunct2, rule_format, OF empty_file_on_windows_run]
  note windows_no_image = exits_leave_no_partial_file
    [of no_image_on_windows fresh,
     THEN conjunct2, THEN conjunct2, THEN conjunct2, rule_format, OF no_image_on_windows_run]
  have no_faults:
    "\<forall>h q. unlink_fault (faulty_disk (Some (''ENOSPC: no space left on device, write'', Some 2)) None) h q
         = None"
    "\<forall>h q. unlink_fault empty_file_on_windows h q = None"
    "\<forall>h q. stat_fault empty_file_on_windows h q = None"
    "\<forall>h q. unlink_fault no_image_on_windows h q = None"
    "\<forall>h q. stat_fault no_image_on_windows h q = None"
    by (simp_all add: faulty_disk_sel empty_file_on_windows_def no_image_on_windows_def windows_sel)
  have texts: "\<not> startsWith (trim (''SUCCESS'' @ crlf)) ''ERROR:''"
    "trim (''NO_IMAGE'' @ crlf) = ''NO_IMAGE''" "\<not> startsWith ''NO_IMAGE'' ''ERROR:''"
    by (simp_all add: trim_def isWhiteSpace_def crlf_def)
  have nothing_left: "(files fresh ++ proc_writes no_image_on_windows
         [EnsureDir (Resolved ''C:/Temp/kilocode-clipboard''),
          GenFilename ''png'' (Resolved ''clipboard-1.png'')]
         ''powershell.exe'' (save_command windows_png_path)) windows_png_path = None"
    by (simp add: no_image_on_windows_def windows_sel fresh_sel)
  from windows_failure no_faults texts
  have 1: "files (snd (saveClipboardImageWindows empty_file_on_windows fresh)) windows_png_path = None"
    by (simp add: empty_file_on_windows_run new_events_def fresh_sel)
  from windows_no_image no_faults texts nothing_left
  have 2: "files (snd (saveClipboardImageWindows no_image_on_windows fresh)) windows_png_path = None"
    by (simp add: no_image_on_windows_run new_events_def fresh_sel)
  from linux_success windows_success linux_failure no_faults texts nothing_left 1 2 show ?thesis
    by (simp add: png_without_wayland_save png_on_windows_run faulty_disk_run empty_file_on_windows_run
        no_image_on_windows_run)
qed

subsection \<open>C3: a fetch of zero bytes\<close>

lemma is_which_not_empty_fetch: "is_which ev \<Longrightarrow> \<not> empty_fetch ev"
  by (cases ev rule: empty_fetch.cases) auto

lemma is_fs_not_empty_fetch: "is_fs_event ev \<Longrightarrow> \<not> empty_fetch ev"
  by (cases ev rule: empty_fetch.cases) auto

lemma wayland_block_fetch:
  assumes "save_wayland_block E None f s = (r, s')"
  shows "\<exists>evs. trace s' = trace s @ evs \<and>
     ((\<exists>f'. r = Resolved (Continue (Some []) f')) \<and> evs \<noteq> [] \<and> empty_fetch (last evs)
        \<and> list_all (\<lambda>ev. \<not> empty_fetch ev) (butlast evs)
      \<or> (\<forall>f'. r \<noteq> Resolved (Continue (Some []) f')) \<and> list_all (\<lambda>ev. \<not> empty_fetch ev) evs)"
  using assms by (cases rule: save_wayland_block_cases) auto

lemma xclip_block_fetch:
  assumes "save_xclip_block E None f s = (r, s')"
  shows "\<exists>evs. trace s' = trace s @ evs \<and>
     ((\<exists>f'. r = Resolved (Continue (Some []) f')) \<and> evs \<noteq> [] \<and> empty_fetch (last evs)
        \<and> list_all (\<lambda>ev. \<not> empty_fetch ev) (butlast evs)
      \<or> (\<forall>f'. r \<noteq> Resolved (Continue (Some []) f')) \<and> list_all (\<lambda>ev. \<not> empty_fetch ev) evs)"
  using assms by (cases rule: save_xclip_block_cases) auto

lemma xclip_block_has_data:
  assumes "save_xclip_block E (Some data) f s = (r, s')"
  shows "r = Resolved (Continue (Some data) f) \<and> trace s' = trace s"
  using assms by (cases rule: save_xclip_block_cases) auto

lemma finish_fetch:
  assumes "save_finish E dir d f s = (r, s')"
  shows "\<exists>evs. trace s' = trace s @ evs \<and> list_all (\<lambda>ev. \<not> empty_fetch ev) evs
     \<and> (d = Some [] \<longrightarrow> evs = [] \<and> r = Resolved (Failure ''Clipboard image is empty.''))"
  using assms
proof (cases rule: save_finish_cases)
  case (some_tool evs)
  then show ?thesis by (auto simp: list_all_iff is_which_not_empty_fetch)
next
  case (persist data name)
  from write_and_verify_trace [of E "path_join E dir name" data
      "s\<lparr>trace := trace s @ [GenFilename f (Resolved name)]\<rparr>"] persist
  show ?thesis by (auto simp: list_all_iff is_fs_not_empty_fetch)
qed auto

lemma empty_fetch_ends_run:
  assumes run: "saveClipboardImageLinux E s = (r, s')"
    and ef: "empty_fetch ev"
    and occurs: "ev \<in> set (new_events s (r, s'))"
  shows "r = Resolved (Failure ''Clipboard image is empty.'') \<and> last (trace s') = ev"
proof -
  from run show ?thesis
  proof (cases rule: saveClipboardImageLinux_cases)
    case (no_dir e)
    with occurs ef show ?thesis by (auto simp: new_events_def)
  next
    case (wayland_returned dir res)
    from wayland_block_fetch [OF wayland_returned(2)] occurs ef show ?thesis
      by (auto simp: new_events_def list_all_iff)
  next
    case (xclip_returned dir d f s1 res)
    show ?thesis
    proof (cases d)
      case None
      from wayland_block_fetch [OF xclip_returned(2)] None obtain evs1 where
        1: "trace s1 = trace s @ EnsureDir (Resolved dir) # evs1" "list_all (\<lambda>ev. \<not> empty_fetch ev) evs1"
        by auto
      from xclip_block_fetch [OF xclip_returned(3) [unfolded None]] obtain evs2 where
        2: "trace s' = trace s1 @ evs2" "list_all (\<lambda>ev. \<not> empty_fetch ev) evs2"
        by auto
      from 1 2 occurs ef show ?thesis by (auto simp: new_events_def list_all_iff)
    next
      case (Some data)
      with xclip_block_has_data [of E data f s1] xclip_returned(3) show ?thesis by auto
    qed
  next
    case (finished dir d f s1 d' f' s2)
    from finish_fetch [OF finished(4)] obtain evs3 where
      3: "trace s' = trace s2 @ evs3" "list_all (\<lambda>ev. \<not> empty_fetch ev) evs3"
      "d' = Some [] \<longrightarrow> evs3 = [] \<and> r = Resolved (Failure ''Clipboard image is empty.'')"
      by auto
    show ?thesis
    proof (cases d)
      case None
      from wayland_block_fetch [OF finished(2)] None obtain evs1 where
        1: "trace s1 = trace s @ EnsureDir (Resolved dir) # evs1" "list_all (\<lambda>ev. \<not> empty_fetch ev) evs1"
        by auto
      from xclip_block_fetch [OF finished(3) [unfolded None]] obtain evs2 where
        2: "trace s2 = trace s1 @ evs2"
          "d' = Some [] \<and> evs2 \<noteq> [] \<and> empty_fetch (last evs2)
              \<and> list_all (\<lambda>ev. \<not> empty_fetch ev) (butlast evs2)
            \<or> d' \<noteq> Some [] \<and> list_all (\<lambda>ev. \<not> empty_fetch ev) evs2"
        by auto
      from 1 2 3 occurs ef show ?thesis
        by (auto simp: new_events_def list_all_iff in_set_last_or_butlast)
    next
      case (Some data)
      with xclip_block_has_data [of E data f s1] finished(3)
      have same: "d' = Some data" "trace s2 = trace s1" by auto
      from wayland_block_fetch [OF finished(2)] Some obtain evs1 where
        1: "trace s1 = trace s @ EnsureDir (Resolved dir) # evs1"
          "data = [] \<and> evs1 \<noteq> [] \<and> empty_fetch (last evs1)
              \<and> list_all (\<lambda>ev. \<not> empty_fetch ev) (butlast evs1)
            \<or> data \<noteq> [] \<and> list_all (\<lambda>ev. \<not> empty_fetch ev) evs1"
        by auto
      from 1 same 3 occurs ef show ?thesis
        by (auto simp: new_events_def list_all_iff in_set_last_or_butlast)
    qed
  qed
qed

lemma is_which_not_wl_paste: "is_which ev \<Longrightarrow> \<not> invokes ''wl-paste'' ev"
  by (cases ev rule: is_which.cases) auto

lemma is_fs_not_wl_paste: "is_fs_event ev \<Longrightarrow> \<not> invokes ''wl-paste'' ev"
  by (cases ev rule: is_fs_event.cases) auto

lemma wayland_block_failed_fetch:
  assumes "save_wayland_block E None f s = (r, s')"
  shows "\<exists>evs. trace s' = trace s @ evs \<and>
     (\<forall>args n e. ExecBuffer ''wl-paste'' args n (Rejected e) \<in> set evs \<longrightarrow>
        (\<exists>f'. r = Resolved (Continue None f')) \<and> evs \<noteq> []
        \<and> last evs = ExecBuffer ''wl-paste'' args n (Rejected e))"
  using assms by (cases rule: save_wayland_block_cases) auto

lemma xclip_block_after_wayland:
  assumes "save_xclip_block E d f s = (r, s')"
  shows "\<exists>evs. trace s' = trace s @ evs \<and> list_all (\<lambda>ev. \<not> invokes ''wl-paste'' ev) evs
     \<and> (d = None \<longrightarrow> (\<exists>a post. evs = Exec ''which'' [''xclip''] a # post))"
  using assms by (cases rule: save_xclip_block_cases) auto

lemma finish_after_wayland:
  assumes "save_finish E dir d f s = (r, s')"
  shows "\<exists>evs. trace s' = trace s @ evs \<and> list_all (\<lambda>ev. \<not> invokes ''wl-paste'' ev) evs"
  using assms
proof (cases rule: save_finish_cases)
  case (some_tool evs)
  then show ?thesis by (auto simp: list_all_iff is_which_not_wl_paste)
next
  case (persist data name)
  from write_and_verify_trace [of E "path_join E dir name" data
      "s\<lparr>trace := trace s @ [GenFilename f (Resolved name)]\<rparr>"] persist
  show ?thesis by (auto simp: list_all_iff is_fs_not_wl_paste)
qed auto

lemma failed_fetch_falls_through:
  assumes run: "saveClipboardImageLinux E s = (r, s')"
    and occurs: "ExecBuffer ''wl-paste'' args n (Rejected e) \<in> set (new_events s (r, s'))"
  shows "\<exists>pre a post. new_events s (r, s') =
     pre @ ExecBuffer ''wl-paste'' args n (Rejected e) # Exec ''which'' [''xclip''] a # post"
proof -
  let ?ev = "ExecBuffer ''wl-paste'' args n (Rejected e)"
  have wl: "invokes ''wl-paste'' ?ev" by simp
  from run show ?thesis
  proof (cases rule: saveClipboardImageLinux_cases)
    case (no_dir e')
    with occurs show ?thesis by (auto simp: new_events_def)
  next
    case (wayland_returned dir res)
    from wayland_block_failed_fetch [OF wayland_returned(2)] occurs show ?thesis
      by (auto simp: new_events_def)
  next
    case (xclip_returned dir d f s1 res)
    from wayland_block_failed_fetch [OF xclip_returned(2)] obtain evs1 where
      1: "trace s1 = trace s @ EnsureDir (Resolved dir) # evs1"
        "?ev \<in> set evs1 \<Longrightarrow> d = None \<and> evs1 \<noteq> [] \<and> last evs1 = ?ev"
      by auto
    from xclip_block_after_wayland [OF xclip_returned(3)] obtain evs2 where
      2: "trace s' = trace s1 @ evs2" "list_all (\<lambda>ev. \<not> invokes ''wl-paste'' ev) evs2"
        "d = None \<Longrightarrow> \<exists>a post. evs2 = Exec ''which'' [''xclip''] a # post"
      by auto
    from occurs 1(1) 2(1,2) wl have "?ev \<in> set evs1"
      by (auto simp: new_events_def list_all_iff)
    from 1(2) [OF this] 2(3) obtain b a post where
      "evs1 = b @ [?ev]" "evs2 = Exec ''which'' [''xclip''] a # post"
      by (metis append_butlast_last_id)
    with 1(1) 2(1) have "new_events s (r, s') =
        (EnsureDir (Resolved dir) # b) @ ?ev # Exec ''which'' [''xclip''] a # post"
      by (simp add: new_events_def)
    then show ?thesis by blast
  next
    case (finished dir d f s1 d' f' s2)
    from wayland_block_failed_fetch [OF finished(2)] obtain evs1 where
      1: "trace s1 = trace s @ EnsureDir (Resolved dir) # evs1"
        "?ev \<in> set evs1 \<Longrightarrow> d = None \<and> evs1 \<noteq> [] \<and> last evs1 = ?ev"
      by auto
    from xclip_block_after_wayland [OF finished(3)] obtain evs2 where
      2: "trace s2 = trace s1 @ evs2" "list_all (\<lambda>ev. \<not> invokes ''wl-paste'' ev) evs2"
        "d = None \<Longrightarrow> \<exists>a post. evs2 = Exec ''which'' [''xclip''] a # post"
      by auto
    from finish_after_wayland [OF finished(4)] obtain evs3 where
      3: "trace s' = trace s2 @ evs3" "list_all (\<lambda>ev. \<not> invokes ''wl-paste'' ev) evs3"
      by auto
    from occurs 1(1) 2(1,2) 3 wl have "?ev \<in> set evs1"
      by (auto simp: new_events_def list_all_iff)
    from 1(2) [OF this] 2(3) obtain b a post where
      "evs1 = b @ [?ev]" "evs2 = Exec ''which'' [''xclip''] a # post"
      by (metis append_butlast_last_id)
    with 1(1) 2(1) 3(1) have "new_events s (r, s') =
        (EnsureDir (Resolved dir) # b) @ ?ev # Exec ''which'' [''xclip''] a # (post @ evs3)"
      by (simp add: new_events_def)
    then show ?thesis by blast
  qed
qed

text \<open>
  C3 (as the code has it).  In every run of \<open>saveClipboardImageLinux\<close>: when a fetch
  (\<^verbatim>\<open>wl-paste --type ...\<close> or \<^verbatim>\<open>xclip ... -o\<close> with binary capture) succeeds with zero
  bytes, that fetch is the last external request of the run and the function returns the
  failure "Clipboard image is empty.": no later backend is tried.  A fetch of wl-paste
  that fails does fall through: when it is rejected, the next request of the run is the
  probe for xclip (\<^verbatim>\<open>which xclip\<close>).
\<close>
theorem empty_fetch_is_terminal:
  assumes run: "saveClipboardImageLinux E s = (r, s')"
  shows "(ExecBuffer tool args n (Resolved []) \<in> set (new_events s (r, s')) \<longrightarrow>
            r = Resolved (Failure ''Clipboard image is empty.'')
            \<and> last (trace s') = ExecBuffer tool args n (Resolved []))
     \<and> (ExecBuffer ''wl-paste'' args n (Rejected e) \<in> set (new_events s (r, s')) \<longrightarrow>
            (\<exists>pre a post. new_events s (r, s') =
               pre @ ExecBuffer ''wl-paste'' args n (Rejected e)
                 # Exec ''which'' [''xclip''] a # post))"
proof (rule conjI; rule impI)
  assume occurs: "ExecBuffer tool args n (Resolved []) \<in> set (new_events s (r, s'))"
  from empty_fetch_ends_run [OF run _ occurs]
  show "r = Resolved (Failure ''Clipboard image is empty.'')
      \<and> last (trace s') = ExecBuffer tool args n (Resolved [])"
    by simp
next
  assume "ExecBuffer ''wl-paste'' args n (Rejected e) \<in> set (new_events s (r, s'))"
  from failed_fetch_falls_through [OF run this]
  show "\<exists>pre a post. new_events s (r, s') =
      pre @ ExecBuffer ''wl-paste'' args n (Rejected e) # Exec ''which'' [''xclip''] a # post" .
qed

text \<open>Witness and counterexample: the runs on \<open>empty_on_wayland\<close> and \<open>failing_on_wayland\<close>.\<close>
lemma empty_on_wayland_run:
  "saveClipboardImageLinux empty_on_wayland fresh =
     (Resolved (Failure ''Clipboard image is empty.''),
      \<lparr>files = Map.empty,
       trace = [EnsureDir (Resolved ''/tmp/kilocode-clipboard''),
                Exec ''which'' [''wl-paste''] (Resolved ''/usr/bin/wl-paste''),
                Exec ''wl-paste'' [''--list-types''] (Resolved ''image/png''),
                ExecBuffer ''wl-paste'' [''--type'', ''image/png''] max_image_bytes (Resolved [])]\<rparr>)"
  by (simp add: empty_on_wayland_def desktop_sel fresh_def save_linux_defs probe_defs io_defs
      select_format_def no_image_message_def Let_def)

lemma failing_on_wayland_run:
  "saveClipboardImageLinux failing_on_wayland fresh =
     (Resolved (Success ''/tmp/kilocode-clipboard/clipboard-1.png''),
      \<lparr>files = [''/tmp/kilocode-clipboard/clipboard-1.png'' \<mapsto> png_bytes],
       trace = [EnsureDir (Resolved ''/tmp/kilocode-clipboard''),
                Exec ''which'' [''wl-paste''] (Resolved ''/usr/bin/wl-paste''),
                Exec ''wl-paste'' [''--list-types''] (Resolved ''image/png''),
                ExecBuffer ''wl-paste'' [''--type'', ''image/png''] max_image_bytes
                  (Rejected ''Command failed: wl-paste''),
                Exec ''which'' [''xclip''] (Resolved ''/usr/bin/xclip''),
                Exec ''xclip'' xclip_targets_args (Resolved ''image/png''),
                ExecBuffer ''xclip'' [''-selection'', ''clipboard'', ''-t'', ''image/png'', ''-o'']
                  max_image_bytes (Resolved png_bytes),
                GenFilename ''png'' (Resolved ''clipboard-1.png''),
                WriteFile ''/tmp/kilocode-clipboard/clipboard-1.png'' png_bytes (Resolved ()),
                Stat ''/tmp/kilocode-clipboard/clipboard-1.png'' (Resolved 4)]\<rparr>)"
  by (simp add: failing_on_wayland_def desktop_sel fresh_def save_linux_defs probe_defs io_defs
      select_format_def Let_def png_bytes_def)

theorem empty_fetch_is_terminal_witness:
  "fst (saveClipboardImageLinux empty_on_wayland fresh) = Resolved (Failure ''Clipboard image is empty.'')
   \<and> last (trace (snd (saveClipboardImageLinux empty_on_wayland fresh)))
       = ExecBuffer ''wl-paste'' [''--type'', ''image/png''] max_image_bytes (Resolved [])
   \<and> ExecBuffer ''wl-paste'' [''--type'', ''image/png''] max_image_bytes
         (Rejected ''Command failed: wl-paste'')
       \<in> set (new_events fresh (saveClipboardImageLinux failing_on_wayland fresh))
   \<and> (\<exists>pre a post. new_events fresh (saveClipboardImageLinux failing_on_wayland fresh) =
         pre @ ExecBuffer ''wl-paste'' [''--type'', ''image/png''] max_image_bytes
                 (Rejected ''Command failed: wl-paste'')
           # Exec ''which'' [''xclip''] a # post)"
proof -
  note empty = empty_fetch_is_terminal [OF empty_on_wayland_run,
      of "''wl-paste''" "[''--type'', ''image/png'']" max_image_bytes, THEN conjunct1, rule_format]
  note failing = empty_fetch_is_terminal [OF failing_on_wayland_run,
      of _ "[''--type'', ''image/png'']" max_image_bytes "''Command failed: wl-paste''",
      THEN conjunct2, rule_format]
  have occurs: "ExecBuffer ''wl-paste'' [''--type'', ''image/png''] max_image_bytes
         (Rejected ''Command failed: wl-paste'')
       \<in> set (new_events fresh (saveClipboardImageLinux failing_on_wayland fresh))"
    by (simp add: failing_on_wayland_run new_events_def fresh_sel)
  from failing occurs
  have falls: "\<exists>pre a post. new_events fresh (saveClipboardImageLinux failing_on_wayland fresh) =
         pre @ ExecBuffer ''wl-paste'' [''--type'', ''image/png''] max_image_bytes
                 (Rejected ''Command failed: wl-paste'')
           # Exec ''which'' [''xclip''] a # post"
    by (simp only: failing_on_wayland_run)
  from empty have "fst (saveClipboardImageLinux empty_on_wayland fresh)
        = Resolved (Failure ''Clipboard image is empty.'')
      \<and> last (trace (snd (saveClipboardImageLinux empty_on_wayland fresh)))
        = ExecBuffer ''wl-paste'' [''--type'', ''image/png''] max_image_bytes (Resolved [])"
    by (simp add: empty_on_wayland_run new_events_def fresh_sel)
  with occurs falls show ?thesis by blast
qed

text \<open>
  The claim as stated fails: wl-paste's fetch succeeds with zero bytes, xclip is installed
  and would deliver the image, and the run returns a terminal failure without a single
  xclip request.
\<close>
theorem empty_fetch_does_not_fall_through:
  "fst (saveClipboardImageLinux empty_on_wayland fresh) = Resolved (Failure ''Clipboard image is empty.'')
   \<and> trace (snd (saveClipboardImageLinux empty_on_wayland fresh)) =
       [EnsureDir (Resolved ''/tmp/kilocode-clipboard''),
        Exec ''which'' [''wl-paste''] (Resolved ''/usr/bin/wl-paste''),
        Exec ''wl-paste'' [''--list-types''] (Resolved ''image/png''),
        ExecBuffer ''wl-paste'' [''--type'', ''image/png''] max_image_bytes (Resolved [])]
   \<and> \<not> list_ex (invokes ''xclip'') (trace (snd (saveClipboardImageLinux empty_on_wayland fresh)))
   \<and> proc_text empty_on_wayland [] ''which'' [''xclip''] = Resolved ''/usr/bin/xclip''
   \<and> proc_buffer empty_on_wayland [] ''xclip''
        [''-selection'', ''clipboard'', ''-t'', ''image/png'', ''-o''] max_image_bytes = Resolved png_bytes"
  by (simp add: empty_on_wayland_run) (simp add: empty_on_wayland_def desktop_sel)

subsection \<open>C4: which faults reach the caller\<close>











subsection \<open>C5: no tool available\<close>

lemma probes_fail:
  assumes "\<And>h tool. \<exists>e. proc_text E h ''which'' [tool] = Rejected e"
  shows "fst (hasWlPaste E s) = Resolved False" "fst (hasXclip E s) = Resolved False"
    "fst (hasXsel E s) = Resolved False"
  using assms [of "trace s" "''wl-paste''"] assms [of "trace s" "''xclip''"]
    assms [of "trace s" "''xsel''"]
  by (auto simp: probe_defs io_defs Let_def)

lemma wayland_block_nothing_installed:
  assumes "\<And>h tool. \<exists>e. proc_text E h ''which'' [tool] = Rejected e"
    and "save_wayland_block E d f s = (r, s')"
  shows "r = Resolved (Continue d f)"
  using assms(2) assms(1) [of "trace s" "''wl-paste''"]
  by (cases rule: save_wayland_block_cases) auto

lemma xclip_block_nothing_installed:
  assumes "\<And>h tool. \<exists>e. proc_text E h ''which'' [tool] = Rejected e"
    and "save_xclip_block E d f s = (r, s')"
  shows "r = Resolved (Continue d f)"
  using assms(2) assms(1) [of "trace s" "''xclip''"]
  by (cases rule: save_xclip_block_cases) auto

lemma finish_nothing_installed:
  assumes p: "\<And>h tool. \<exists>e. proc_text E h ''which'' [tool] = Rejected e"
  shows "fst (save_finish E dir None f s) = Resolved (Failure no_tool_message)"
proof -
  obtain e1 where 1: "proc_text E (trace s) ''which'' [''wl-paste''] = Rejected e1"
    using p by blast
  obtain e2 where 2: "proc_text E (trace s @ [Exec ''which'' [''wl-paste''] (Rejected e1)])
      ''which'' [''xclip''] = Rejected e2"
    using p by blast
  obtain e3 where 3: "proc_text E (trace s @ [Exec ''which'' [''wl-paste''] (Rejected e1),
      Exec ''which'' [''xclip''] (Rejected e2)]) ''which'' [''xsel''] = Rejected e3"
    using p by blast
  from 1 2 3 show ?thesis
    by (simp add: save_finish_def probe_defs io_defs Let_def)
qed

lemma save_linux_nothing_installed:
  assumes dir: "dir_provider E (trace s) = Resolved dir"
    and p: "\<And>h tool. \<exists>e. proc_text E h ''which'' [tool] = Rejected e"
  shows "fst (saveClipboardImageLinux E s) = Resolved (Failure no_tool_message)"
proof -
  obtain r s' where run: "saveClipboardImageLinux E s = (r, s')"
    by (cases "saveClipboardImageLinux E s")
  from run show ?thesis
  proof (cases rule: saveClipboardImageLinux_cases)
    case (no_dir e)
    with dir show ?thesis by simp
  next
    case (wayland_returned dir res)
    with wayland_block_nothing_installed [OF p wayland_returned(2)] show ?thesis by simp
  next
    case (xclip_returned dir d f s1 res)
    with xclip_block_nothing_installed [OF p xclip_returned(3)] show ?thesis by simp
  next
    case (finished dir' d f s1 d' f' s2)
    from wayland_block_nothing_installed [OF p finished(2)] have "d = None" by simp
    with xclip_block_nothing_installed [OF p finished(3)] have "d' = None" by simp
    with finished(4) finish_nothing_installed [OF p, of dir' f' s2] run show ?thesis by simp
  qed
qed

lemma save_windows_runner_fails:
  assumes dir: "dir_provider E (trace s) = Resolved dir"
    and name: "name_generator E (trace s @ [EnsureDir (Resolved dir)]) ''png'' = Resolved name"
    and ps: "proc_text E (trace s @ [EnsureDir (Resolved dir), GenFilename ''png'' (Resolved name)])
       ''powershell.exe''
       (powershell_args (save_image_script (escape_backslashes (path_join E dir name)))) = Rejected e"
  shows "fst (saveClipboardImageWindows E s) = Resolved (Failure e)"
  using assms
  by (cases "unlink_fault E
        (trace s @ [EnsureDir (Resolved dir), GenFilename ''png'' (Resolved name),
           Exec ''powershell.exe''
             (powershell_args (save_image_script (escape_backslashes (path_join E dir name))))
             (Rejected e)])
        (path_join E dir name)")
    (simp_all add: saveClipboardImageWindows_def runPowerShell_def io_defs Let_def
      split: option.splits)

text \<open>
  C5 (as the code has it).  When the staging directory is provided and every availability
  probe (\<^verbatim>\<open>which wl-paste\<close>, \<^verbatim>\<open>which xclip\<close>, \<^verbatim>\<open>which xsel\<close>) fails, whenever it is
  asked, \<open>saveClipboardImageLinux\<close> returns the failure "No clipboard tool available. ...",
  which is not the "no image" message.  On Windows there is no probe: when the staging
  directory and the file name are provided and powershell.exe cannot be run,
  \<open>saveClipboardImageWindows\<close> returns a failure carrying the runner's own message
  unchanged, so it is told apart from the "no image" failure whenever the runner's
  message is not that very text.
\<close>
theorem no_tool_is_reported:
  assumes dir: "dir_provider E (trace s) = Resolved dir"
  shows "((\<forall>h tool. \<exists>e. proc_text E h ''which'' [tool] = Rejected e) \<longrightarrow>
          fst (saveClipboardImageLinux E s) =
            Resolved (Failure ''No clipboard tool available. Please install xclip (sudo apt install xclip) or wl-clipboard for Wayland.''))
     \<and> no_tool_message \<noteq> no_image_message
     \<and> (\<forall>name e.
          name_generator E (trace s @ [EnsureDir (Resolved dir)]) ''png'' = Resolved name \<longrightarrow>
          proc_text E (trace s @ [EnsureDir (Resolved dir), GenFilename ''png'' (Resolved name)])
            ''powershell.exe''
            (powershell_args (save_image_script (escape_backslashes (path_join E dir name))))
            = Rejected e \<longrightarrow>
          fst (saveClipboardImageWindows E s) = Resolved (Failure e)
          \<and> (e \<noteq> ''No image found in clipboard.'' \<longrightarrow>
               fst (saveClipboardImageWindows E s)
                 \<noteq> Resolved (Failure ''No image found in clipboard.'')))"
  using save_linux_nothing_installed [OF dir] save_windows_runner_fails [OF dir]
  by (auto simp: no_tool_message_def no_image_message_def)

text \<open>
  The claim as stated fails: no tool is installed, every probe would fail, and the
  staging directory cannot be created.  \<^verbatim>\<open>ensureClipboardDir\<close> is awaited outside any
  \<^verbatim>\<open>try\<close> block, so the run rejects with its error, before a single probe, instead of
  returning a failure; the same on Windows without PowerShell.
\<close>
theorem no_tool_run_can_reject:
  "proc_text (no_staging_dir nothing_installed)
       [EnsureDir (Rejected ''EACCES: permission denied, mkdir'')] ''which'' [''wl-paste'']
     = Rejected ''Command failed: which''
   \<and> proc_text (no_staging_dir nothing_installed)
       [EnsureDir (Rejected ''EACCES: permission denied, mkdir'')] ''which'' [''xclip'']
     = Rejected ''Command failed: which''
   \<and> proc_text (no_staging_dir nothing_installed)
       [EnsureDir (Rejected ''EACCES: permission denied, mkdir'')] ''which'' [''xsel'']
     = Rejected ''Command failed: which''
   \<and> saveClipboardImageLinux (no_staging_dir nothing_installed) fresh =
       (Rejected ''EACCES: permission denied, mkdir'',
        \<lparr>files = Map.empty, trace = [EnsureDir (Rejected ''EACCES: permission denied, mkdir'')]\<rparr>)
   \<and> proc_text (no_staging_dir (windows (Rejected ''spawn powershell.exe ENOENT'') Map.empty))
       [EnsureDir (Rejected ''EACCES: permission denied, mkdir'')] ''powershell.exe''
       (save_command windows_png_path)
     = Rejected ''spawn powershell.exe ENOENT''
   \<and> saveClipboardImageWindows
        (no_staging_dir (windows (Rejected ''spawn powershell.exe ENOENT'') Map.empty)) fresh =
       (Rejected ''EACCES: permission denied, mkdir'',
        \<lparr>files = Map.empty, trace = [EnsureDir (Rejected ''EACCES: permission denied, mkdir'')]\<rparr>)"
  by (simp add: no_staging_dir_run) (simp add: no_staging_dir_def nothing_installed_def desktop_sel windows_sel)

text \<open>Witness: a machine without any clipboard tool, and a Windows machine without PowerShell.\<close>
lemma nothing_installed_run:
  "saveClipboardImageLinux nothing_installed fresh =
     (Resolved (Failure no_tool_message),
      \<lparr>files = Map.empty,
       trace = [EnsureDir (Resolved ''/tmp/kilocode-clipboard''),
                Exec ''which'' [''wl-paste''] (Rejected ''Command failed: which''),
                Exec ''which'' [''xclip''] (Rejected ''Command failed: which''),
                Exec ''which'' [''wl-paste''] (Rejected ''Command failed: which''),
                Exec ''which'' [''xclip''] (Rejected ''Command failed: which''),
                Exec ''which'' [''xsel''] (Rejected ''Command failed: which'')]\<rparr>)"
  by (simp add: nothing_installed_def desktop_sel fresh_def save_linux_defs probe_defs io_defs
      Let_def)

theorem no_tool_is_reported_witness:
  "dir_provider nothing_installed (trace fresh) = Resolved ''/tmp/kilocode-clipboard''
   \<and> proc_text nothing_installed [] ''which'' [''xclip''] = Rejected ''Command failed: which''
   \<and> saveClipboardImageLinux nothing_installed fresh =
     (Resolved (Failure no_tool_message),
      \<lparr>files = Map.empty,
       trace = [EnsureDir (Resolved ''/tmp/kilocode-clipboard''),
                Exec ''which'' [''wl-paste''] (Rejected ''Command failed: which''),
                Exec ''which'' [''xclip''] (Rejected ''Command failed: which''),
                Exec ''which'' [''wl-paste''] (Rejected ''Command failed: which''),
                Exec ''which'' [''xclip''] (Rejected ''Command failed: which''),
                Exec ''which'' [''xsel''] (Rejected ''Command failed: which'')]\<rparr>)
   \<and> fst (saveClipboardImageLinux nothing_installed fresh) =
        Resolved (Failure ''No clipboard tool available. Please install xclip (sudo apt install xclip) or wl-clipboard for Wayland.'')
   \<and> fst (saveClipboardImageWindows (windows (Rejected ''spawn powershell.exe ENOENT'') Map.empty) fresh)
        = Resolved (Failure ''spawn powershell.exe ENOENT'')
   \<and> fst (saveClipboardImageWindows (windows (Rejected ''spawn powershell.exe ENOENT'') Map.empty) fresh)
        \<noteq> Resolved (Failure ''No image found in clipboard.'')"
  using
    no_tool_is_reported [of nothing_installed fresh "''/tmp/kilocode-clipboard''"]
    no_tool_is_reported [of "windows (Rejected ''spawn powershell.exe ENOENT'') Map.empty" fresh
      "''C:/Temp/kilocode-clipboard''"]
    nothing_installed_run
  by (simp add: nothing_installed_def desktop_sel windows_sel fresh_sel)

subsection \<open>C6: the saved bytes\<close>

lemma startsWith_append: "startsWith (t @ b) t"
  by (induction t) auto

lemma str_includes_self: "str_includes (t @ b) t"
proof (cases "t @ b")
  case Nil
  then show ?thesis by simp
next
  case (Cons c cs)
  with startsWith_append [of t b] show ?thesis by simp
qed

lemma str_includes_append: "str_includes (a @ t @ b) t"
  by (induction a) (auto simp: str_includes_self)

lemma save_image_script_saves_png:
  "str_includes (save_image_script escapedPath)
     (''$img.Save('' @ [CHR 0x27] @ escapedPath @ [CHR 0x27]
        @ '', [System.Drawing.Imaging.ImageFormat]::Png)'')"
proof -
  let ?line = "''$img.Save('' @ [CHR 0x27] @ escapedPath @ [CHR 0x27]
             @ '', [System.Drawing.Imaging.ImageFormat]::Png)''"
  have "\<exists>a b. save_image_script escapedPath = a @ ?line @ b"
    by (intro exI [of _ "script_lines
            [''Add-Type -AssemblyName System.Windows.Forms'',
             ''Add-Type -AssemblyName System.Drawing'',
             [],
             ''$img = [System.Windows.Forms.Clipboard]::GetImage()'',
             ''if ($img -eq $null) {'',
             ''    Write-Output '' @ dquote ''NO_IMAGE'',
             ''    exit 0'',
             ''}'',
             [],
             ''try {''] @ ''    ''"]
          exI [of _ "tl (script_lines
            [[],
             ''    Write-Output '' @ dquote ''SUCCESS'',
             ''} catch {'',
             ''    Write-Output '' @ dquote ''ERROR: $_'',
             ''} finally {'',
             ''    $img.Dispose()'',
             ''}''])"])
       (simp add: save_image_script_def script_lines_def squote_def)
  then obtain a b where "save_image_script escapedPath = a @ ?line @ b"
    by blast
  then show ?thesis by (simp only: str_includes_append)
qed

text \<open>
  C6 (as the code has it).  Whenever \<open>saveClipboardImageLinux\<close> returns success, exactly
  one fetch of the run succeeded, and the file at the returned path holds exactly the
  bytes that fetch delivered, which are not empty.  \<open>saveClipboardImageWindows\<close> fetches
  no bytes: it runs PowerShell once, with a script that itself saves the clipboard image
  at the generated path as PNG, and then asks for the size of the file.  Whenever it
  returns success, the file at the returned path is not empty and the disk is as the
  PowerShell run left it.
\<close>
theorem saved_file_holds_fetched_bytes:
  "(\<forall>p s'. saveClipboardImageLinux E s = (Resolved (Success p), s') \<longrightarrow>
      (\<exists>data. fetched_bytes (new_events s (saveClipboardImageLinux E s)) = [data]
         \<and> files s' p = Some data \<and> data \<noteq> []))
   \<and> (\<forall>p s'. saveClipboardImageWindows E s = (Resolved (Success p), s') \<longrightarrow>
      (\<exists>dir name script out data. p = path_join E dir name
         \<and> new_events s (saveClipboardImageWindows E s) =
             [EnsureDir (Resolved dir), GenFilename ''png'' (Resolved name),
              Exec ''powershell.exe'' (save_command p) (Resolved out),
              Stat p (Resolved (length data))]
         \<and> save_command p = [''-NoProfile'', ''-NonInteractive'', ''-Command'', script]
         \<and> str_includes script
              (''$img.Save('' @ [CHR 0x27] @ escape_backslashes p @ [CHR 0x27]
                 @ '', [System.Drawing.Imaging.ImageFormat]::Png)'')
         \<and> fetched_bytes (new_events s (saveClipboardImageWindows E s)) = []
         \<and> files s' p = Some data \<and> data \<noteq> []
         \<and> files s' = files s ++ proc_writes E
              (trace s @ [EnsureDir (Resolved dir), GenFilename ''png'' (Resolved name)])
              ''powershell.exe'' (save_command p)))"
proof (intro conjI allI impI)
  fix p s'
  assume run: "saveClipboardImageLinux E s = (Resolved (Success p), s')"
  from save_linux_success [OF run] run
  show "\<exists>data. fetched_bytes (new_events s (saveClipboardImageLinux E s)) = [data]
         \<and> files s' p = Some data \<and> data \<noteq> []"
    by simp
next
  fix p s'
  assume run: "saveClipboardImageWindows E s = (Resolved (Success p), s')"
  from run show "\<exists>dir name script out data. p = path_join E dir name
         \<and> new_events s (saveClipboardImageWindows E s) =
             [EnsureDir (Resolved dir), GenFilename ''png'' (Resolved name),
              Exec ''powershell.exe'' (save_command p) (Resolved out),
              Stat p (Resolved (length data))]
         \<and> save_command p = [''-NoProfile'', ''-NonInteractive'', ''-Command'', script]
         \<and> str_includes script
              (''$img.Save('' @ [CHR 0x27] @ escape_backslashes p @ [CHR 0x27]
                 @ '', [System.Drawing.Imaging.ImageFormat]::Png)'')
         \<and> fetched_bytes (new_events s (saveClipboardImageWindows E s)) = []
         \<and> files s' p = Some data \<and> data \<noteq> []
         \<and> files s' = files s ++ proc_writes E
              (trace s @ [EnsureDir (Resolved dir), GenFilename ''png'' (Resolved name)])
              ''powershell.exe'' (save_command p)"
  proof (cases rule: saveClipboardImageWindows_cases)
    case (verified dir name out)
    let ?script = "save_image_script (escape_backslashes (path_join E dir name))"
    have cmd: "save_command (path_join E dir name) =
        [''-NoProfile'', ''-NonInteractive'', ''-Command'', ?script]"
      by (simp add: save_command_def powershell_args_def)
    from verify_created_success [OF verified(6)] obtain data where
      v: "p = path_join E dir name" "data \<noteq> []"
      "files s' = files s ++ proc_writes E
         (trace s @ [EnsureDir (Resolved dir), GenFilename ''png'' (Resolved name)])
         ''powershell.exe'' (save_command (path_join E dir name))"
      "(files s ++ proc_writes E
         (trace s @ [EnsureDir (Resolved dir), GenFilename ''png'' (Resolved name)])
         ''powershell.exe'' (save_command (path_join E dir name))) (path_join E dir name) = Some data"
      "trace s' = trace s @ [EnsureDir (Resolved dir), GenFilename ''png'' (Resolved name),
         Exec ''powershell.exe'' (save_command (path_join E dir name)) (Resolved out),
         Stat (path_join E dir name) (Resolved (length data))]"
      by (elim exE conjE) simp
    from v(3,4) have "files s' p = Some data"
      unfolding v(1) by simp
    with v run save_image_script_saves_png [of "escape_backslashes (path_join E dir name)"]
    show ?thesis
      by (intro exI [of _ dir] exI [of _ name] exI [of _ ?script] exI [of _ out] exI [of _ data])
         (simp add: new_events_def cmd)
  qed (simp_all add: no_image_message_def)
qed

text \<open>
  The claim as stated fails on Windows.  The run succeeds and the file holds a PNG, but no
  request of the run delivered these bytes: all the driver got back from PowerShell is the
  text "SUCCESS", and the bytes on disk were produced by the script's \<^verbatim>\<open>$img.Save\<close>.
\<close>
theorem windows_file_is_not_fetched:
  "saveClipboardImageWindows png_on_windows fresh =
     (Resolved (Success windows_png_path),
      \<lparr>files = [windows_png_path \<mapsto> png_bytes],
       trace = [EnsureDir (Resolved ''C:/Temp/kilocode-clipboard''),
                GenFilename ''png'' (Resolved ''clipboard-1.png''),
                Exec ''powershell.exe'' (save_command windows_png_path) (Resolved (''SUCCESS'' @ crlf)),
                Stat windows_png_path (Resolved 4)]\<rparr>)
   \<and> fetched_bytes (new_events fresh (saveClipboardImageWindows png_on_windows fresh)) = []
   \<and> files (snd (saveClipboardImageWindows png_on_windows fresh)) windows_png_path
       \<noteq> Some (map of_char (''SUCCESS'' @ crlf))"
  by (simp add: png_on_windows_run new_events_def fresh_sel png_bytes_def crlf_def)

text \<open>Witness: a PNG fetched by xclip, and a PNG saved by PowerShell.\<close>
theorem saved_file_holds_fetched_bytes_witness:
  "fst (saveClipboardImageLinux (png_without_wayland None) fresh)
     = Resolved (Success ''/tmp/kilocode-clipboard/clipboard-1.png'')
   \<and> fetched_bytes (new_events fresh (saveClipboardImageLinux (png_without_wayland None) fresh))
     = [png_bytes]
   \<and> files (snd (saveClipboardImageLinux (png_without_wayland None) fresh))
        ''/tmp/kilocode-clipboard/clipboard-1.png'' = Some png_bytes
   \<and> png_bytes \<noteq> []
   \<and> fst (saveClipboardImageWindows png_on_windows fresh) = Resolved (Success windows_png_path)
   \<and> files (snd (saveClipboardImageWindows png_on_windows fresh)) windows_png_path = Some png_bytes
   \<and> str_includes (last (save_command windows_png_path))
        ''$img.Save('C:/Temp/kilocode-clipboard/clipboard-1.png', [System.Drawing.Imaging.ImageFormat]::Png)''"
proof -
  note linux = saved_file_holds_fetched_bytes
    [of "png_without_wayland None" fresh, THEN conjunct1, rule_format, OF png_without_wayland_save]
  have run: "saveClipboardImageWindows png_on_windows fresh =
      (Resolved (Success windows_png_path), snd (saveClipboardImageWindows png_on_windows fresh))"
    by (simp add: png_on_windows_run)
  from saved_file_holds_fetched_bytes [of png_on_windows fresh, THEN conjunct2, rule_format, OF run]
  obtain dir name script out data where w:
    "save_command windows_png_path = [''-NoProfile'', ''-NonInteractive'', ''-Command'', script]"
    "str_includes script
       (''$img.Save('' @ [CHR 0x27] @ escape_backslashes windows_png_path @ [CHR 0x27]
          @ '', [System.Drawing.Imaging.ImageFormat]::Png)'')"
    "files (snd (saveClipboardImageWindows png_on_windows fresh)) windows_png_path = Some data"
    "data \<noteq> []"
    by blast
  from w(1,2) have script: "str_includes (last (save_command windows_png_path))
      ''$img.Save('C:/Temp/kilocode-clipboard/clipboard-1.png', [System.Drawing.Imaging.ImageFormat]::Png)''"
    by (simp add: windows_png_path_def escape_backslashes_def)
  have "png_bytes \<noteq> []" by (simp add: png_bytes_def)
  with linux w(3,4) script show ?thesis
    by (simp add: png_without_wayland_save png_on_windows_run new_events_def fresh_sel)
qed

subsection \<open>C7: the negotiated format\<close>

lemma select_format_first_supported:
  "select_format types = map_option (\<lambda>fmt. (''image/'' @ fmt, fmt)) (first_supported types)"
  by (simp add: select_format_def first_supported_def)

lemma wayland_block_negotiation:
  assumes "save_wayland_block E d f s = (r, s')"
  shows "\<exists>evs. trace s' = trace s @ evs
     \<and> (\<forall>ev\<in>set evs. \<not> invokes ''xclip'' ev \<and> (\<forall>g nm. ev \<noteq> GenFilename g nm))
     \<and> (\<forall>args types fmt.
          Exec ''wl-paste'' args (Resolved types) \<in> set evs \<longrightarrow> first_supported types = Some fmt \<longrightarrow>
          (\<exists>a. ExecBuffer ''wl-paste'' [''--type'', ''image/'' @ fmt] max_image_bytes a \<in> set evs)
          \<and> (\<forall>args' n data. ExecBuffer ''wl-paste'' args' n (Resolved data) \<in> set evs \<longrightarrow>
                r = Resolved (Continue (Some data) fmt)))"
  using assms
  by (cases rule: save_wayland_block_cases) (auto simp: select_format_first_supported)

lemma xclip_block_negotiation:
  assumes "save_xclip_block E None f s = (r, s')"
  shows "\<exists>evs. trace s' = trace s @ evs
     \<and> (\<forall>ev\<in>set evs. \<not> invokes ''wl-paste'' ev \<and> (\<forall>g nm. ev \<noteq> GenFilename g nm))
     \<and> (\<forall>args types fmt.
          Exec ''xclip'' args (Resolved types) \<in> set evs \<longrightarrow> first_supported types = Some fmt \<longrightarrow>
          (\<exists>a. ExecBuffer ''xclip'' [''-selection'', ''clipboard'', ''-t'', ''image/'' @ fmt, ''-o'']
                 max_image_bytes a \<in> set evs)
          \<and> (\<forall>args' n data. ExecBuffer ''xclip'' args' n (Resolved data) \<in> set evs \<longrightarrow>
                r = Resolved (Continue (Some data) fmt)))"
  using assms
  by (cases rule: save_xclip_block_cases) (auto simp: select_format_first_supported)

lemma is_which_neither: "is_which ev \<Longrightarrow>
  \<not> invokes ''wl-paste'' ev \<and> \<not> invokes ''xclip'' ev \<and> (\<forall>g nm. ev \<noteq> GenFilename g nm)"
  by (cases ev rule: is_which.cases) auto

lemma is_fs_neither: "is_fs_event ev \<Longrightarrow>
  \<not> invokes ''wl-paste'' ev \<and> \<not> invokes ''xclip'' ev \<and> (\<forall>g nm. ev \<noteq> GenFilename g nm)"
  by (cases ev rule: is_fs_event.cases) auto

lemma finish_format:
  assumes "save_finish E dir d f s = (r, s')"
  shows "\<exists>evs. trace s' = trace s @ evs
     \<and> (\<forall>ev\<in>set evs. \<not> invokes ''wl-paste'' ev \<and> \<not> invokes ''xclip'' ev
            \<and> (\<forall>g nm. ev = GenFilename g nm \<longrightarrow> g = f))"
  using assms
proof (cases rule: save_finish_cases)
  case (some_tool evs)
  then show ?thesis using is_which_neither by (fastforce simp: list_all_iff)
next
  case (persist data name)
  from write_and_verify_trace [of E "path_join E dir name" data
      "s\<lparr>trace := trace s @ [GenFilename f (Resolved name)]\<rparr>"] persist
  obtain evs where "trace s' = trace s @ GenFilename f (Resolved name) # evs" "list_all is_fs_event evs"
    by auto
  then show ?thesis using is_fs_neither by (fastforce simp: list_all_iff)
qed auto

text \<open>
  C7.  In every run of \<open>saveClipboardImageLinux\<close>: when the type listing of wl-paste
  or xclip succeeds and \<open>fmt\<close> is the first of png, jpeg, gif whose MIME type the listing
  names, the same tool is asked to fetch \<open>image/fmt\<close>, and if that tool's fetch succeeds,
  a file name is generated for no other format than \<open>fmt\<close>.
\<close>
theorem negotiation_priority:
  assumes run: "saveClipboardImageLinux E s = (r, s')"
    and tool: "tool = ''wl-paste'' \<or> tool = ''xclip''"
    and listed: "Exec tool args (Resolved types) \<in> set (new_events s (r, s'))"
    and first: "first_supported types = Some fmt"
  shows "(\<exists>a. ExecBuffer tool (fetch_args tool (''image/'' @ fmt)) max_image_bytes a
              \<in> set (new_events s (r, s')))
     \<and> (\<forall>args' n data g nm.
          ExecBuffer tool args' n (Resolved data) \<in> set (new_events s (r, s')) \<longrightarrow>
          GenFilename g nm \<in> set (new_events s (r, s')) \<longrightarrow> g = fmt)"
proof -
  have inv: "invokes tool (Exec tool args (Resolved types))" by simp
  from run show ?thesis
  proof (cases rule: saveClipboardImageLinux_cases)
    case (no_dir e)
    with listed show ?thesis by (auto simp: new_events_def)
  next
    case (wayland_returned dir res)
    from wayland_block_negotiation [OF wayland_returned(2)] obtain evs where
      1: "trace s' = trace s @ EnsureDir (Resolved dir) # evs"
      "\<forall>ev\<in>set evs. \<not> invokes ''xclip'' ev \<and> (\<forall>g nm. ev \<noteq> GenFilename g nm)"
      "\<forall>args types fmt.
          Exec ''wl-paste'' args (Resolved types) \<in> set evs \<longrightarrow> first_supported types = Some fmt \<longrightarrow>
          (\<exists>a. ExecBuffer ''wl-paste'' [''--type'', ''image/'' @ fmt] max_image_bytes a \<in> set evs)"
      by auto
    from listed 1(1) have in1: "Exec tool args (Resolved types) \<in> set evs"
      by (auto simp: new_events_def)
    with 1(2) tool have t: "tool = ''wl-paste''" by fastforce
    from 1(3) in1 t first obtain a where
      "ExecBuffer ''wl-paste'' [''--type'', ''image/'' @ fmt] max_image_bytes a \<in> set evs"
      by blast
    with 1(1,2) t show ?thesis
      by (auto simp: new_events_def fetch_args_def)
  next
    case (xclip_returned dir d f s1 res)
    from wayland_block_negotiation [OF xclip_returned(2)] obtain evs1 where
      1: "trace s1 = trace s @ EnsureDir (Resolved dir) # evs1"
      "\<forall>ev\<in>set evs1. \<not> invokes ''xclip'' ev \<and> (\<forall>g nm. ev \<noteq> GenFilename g nm)"
      "\<forall>args types fmt.
          Exec ''wl-paste'' args (Resolved types) \<in> set evs1 \<longrightarrow> first_supported types = Some fmt \<longrightarrow>
          (\<exists>a. ExecBuffer ''wl-paste'' [''--type'', ''image/'' @ fmt] max_image_bytes a \<in> set evs1)"
      by auto
    from xclip_returned(3) have d: "d = None"
      by (cases rule: save_xclip_block_cases) auto
    from xclip_block_negotiation [OF xclip_returned(3) [unfolded d]] obtain evs2 where
      2: "trace s' = trace s1 @ evs2"
      "\<forall>ev\<in>set evs2. \<not> invokes ''wl-paste'' ev \<and> (\<forall>g nm. ev \<noteq> GenFilename g nm)"
      "\<forall>args types fmt.
          Exec ''xclip'' args (Resolved types) \<in> set evs2 \<longrightarrow> first_supported types = Some fmt \<longrightarrow>
          (\<exists>a. ExecBuffer ''xclip'' [''-selection'', ''clipboard'', ''-t'', ''image/'' @ fmt, ''-o'']
                 max_image_bytes a \<in> set evs2)"
      by auto
    have new: "new_events s (r, s') = EnsureDir (Resolved dir) # evs1 @ evs2"
      using 1(1) 2(1) by (simp add: new_events_def)
    have nogen: "GenFilename g nm \<notin> set (new_events s (r, s'))" for g nm
      using 1(2) 2(2) new by auto
    from tool show ?thesis
    proof
      assume t: "tool = ''wl-paste''"
      with listed new 2(2) have "Exec ''wl-paste'' args (Resolved types) \<in> set evs1"
        by fastforce
      with 1(3) first obtain a where
        "ExecBuffer ''wl-paste'' [''--type'', ''image/'' @ fmt] max_image_bytes a \<in> set evs1"
        by blast
      with new t nogen show ?thesis by (auto simp: fetch_args_def)
    next
      assume t: "tool = ''xclip''"
      with listed new 1(2) have "Exec ''xclip'' args (Resolved types) \<in> set evs2"
        by fastforce
      with 2(3) first obtain a where
        "ExecBuffer ''xclip'' [''-selection'', ''clipboard'', ''-t'', ''image/'' @ fmt, ''-o'']
           max_image_bytes a \<in> set evs2"
        by blast
      with new t nogen show ?thesis by (auto simp: fetch_args_def)
    qed
  next
    case (finished dir d f s1 d' f' s2)
    from wayland_block_negotiation [OF finished(2)] obtain evs1 where
      1: "trace s1 = trace s @ EnsureDir (Resolved dir) # evs1"
      "\<forall>ev\<in>set evs1. \<not> invokes ''xclip'' ev \<and> (\<forall>g nm. ev \<noteq> GenFilename g nm)"
      "\<forall>args types fmt.
          Exec ''wl-paste'' args (Resolved types) \<in> set evs1 \<longrightarrow> first_supported types = Some fmt \<longrightarrow>
          (\<exists>a. ExecBuffer ''wl-paste'' [''--type'', ''image/'' @ fmt] max_image_bytes a \<in> set evs1)
          \<and> (\<forall>args' n data. ExecBuffer ''wl-paste'' args' n (Resolved data) \<in> set evs1 \<longrightarrow>
                Resolved (Continue d f) = Resolved (Continue (Some data) fmt))"
      by auto
    from finish_format [OF finished(4)] obtain evs3 where
      3: "trace s' = trace s2 @ evs3"
      "\<forall>ev\<in>set evs3. \<not> invokes ''wl-paste'' ev \<and> \<not> invokes ''xclip'' ev
            \<and> (\<forall>g nm. ev = GenFilename g nm \<longrightarrow> g = f')"
      by auto
    show ?thesis
    proof (cases d)
      case (Some data0)
      with finished(3) have same: "d' = d" "f' = f" "trace s2 = trace s1"
        by (cases rule: save_xclip_block_cases, auto)+
      have new: "new_events s (r, s') = EnsureDir (Resolved dir) # evs1 @ evs3"
        using 1(1) same 3(1) by (simp add: new_events_def)
      from listed new 1(2) 3(2) tool have t: "tool = ''wl-paste''"
        by fastforce
      with listed new 3(2) have l1: "Exec ''wl-paste'' args (Resolved types) \<in> set evs1"
        by fastforce
      with 1(3) first obtain a where
        a: "ExecBuffer ''wl-paste'' [''--type'', ''image/'' @ fmt] max_image_bytes a \<in> set evs1"
        by blast
      have "g = fmt"
        if "ExecBuffer tool args' n (Resolved data) \<in> set (new_events s (r, s'))"
          and "GenFilename g nm \<in> set (new_events s (r, s'))" for args' n data g nm
      proof -
        from that(1) new t 3(2) have "ExecBuffer ''wl-paste'' args' n (Resolved data) \<in> set evs1"
          by fastforce
        with 1(3) l1 first have "f = fmt" by blast
        moreover from that(2) new 1(2) 3(2) have "g = f'" by fastforce
        ultimately show ?thesis using same by simp
      qed
      with a new t show ?thesis by (auto simp: fetch_args_def)
    next
      case None
      from xclip_block_negotiation [OF finished(3) [unfolded None]] obtain evs2 where
        2: "trace s2 = trace s1 @ evs2"
        "\<forall>ev\<in>set evs2. \<not> invokes ''wl-paste'' ev \<and> (\<forall>g nm. ev \<noteq> GenFilename g nm)"
        "\<forall>args types fmt.
            Exec ''xclip'' args (Resolved types) \<in> set evs2 \<longrightarrow> first_supported types = Some fmt \<longrightarrow>
            (\<exists>a. ExecBuffer ''xclip'' [''-selection'', ''clipboard'', ''-t'', ''image/'' @ fmt, ''-o'']
                   max_image_bytes a \<in> set evs2)
            \<and> (\<forall>args' n data. ExecBuffer ''xclip'' args' n (Resolved data) \<in> set evs2 \<longrightarrow>
                  Resolved (Continue d' f') = Resolved (Continue (Some data) fmt))"
        by auto
      have new: "new_events s (r, s') = EnsureDir (Resolved dir) # evs1 @ evs2 @ evs3"
        using 1(1) 2(1) 3(1) by (simp add: new_events_def)
      have gen: "g = f'" if "GenFilename g nm \<in> set (new_events s (r, s'))" for g nm
        using that new 1(2) 2(2) 3(2) by fastforce
      from tool show ?thesis
      proof
        assume t: "tool = ''wl-paste''"
        with listed new 2(2) 3(2) have l1: "Exec ''wl-paste'' args (Resolved types) \<in> set evs1"
          by fastforce
        with 1(3) first obtain a where
          a: "ExecBuffer ''wl-paste'' [''--type'', ''image/'' @ fmt] max_image_bytes a \<in> set evs1"
          by blast
        have "False"
          if "ExecBuffer tool args' n (Resolved data) \<in> set (new_events s (r, s'))" for args' n data
        proof -
          from that new t 2(2) 3(2) have "ExecBuffer ''wl-paste'' args' n (Resolved data) \<in> set evs1"
            by fastforce
          with 1(3) l1 first None show False by fastforce
        qed
        with a new t show ?thesis by (auto simp: fetch_args_def)
      next
        assume t: "tool = ''xclip''"
        with listed new 1(2) 3(2) have l2: "Exec ''xclip'' args (Resolved types) \<in> set evs2"
          by fastforce
        with 2(3) first obtain a where
          a: "ExecBuffer ''xclip'' [''-selection'', ''clipboard'', ''-t'', ''image/'' @ fmt, ''-o'']
                max_image_bytes a \<in> set evs2"
          by blast
        have "g = fmt"
          if "ExecBuffer tool args' n (Resolved data) \<in> set (new_events s (r, s'))"
            and "GenFilename g nm \<in> set (new_events s (r, s'))" for args' n data g nm
        proof -
          from that(1) new t 1(2) 3(2) have "ExecBuffer ''xclip'' args' n (Resolved data) \<in> set evs2"
            by fastforce
          with 2(3) l2 first have "f' = fmt" by blast
          with gen [OF that(2)] show ?thesis by simp
        qed
        with a new t show ?thesis by (auto simp: fetch_args_def)
      qed
    qed
  qed
qed

text \<open>Witness: the listing names GIF before JPEG; JPEG is fetched and named.\<close>
lemma gif_and_jpeg_run:
  "saveClipboardImageLinux gif_and_jpeg fresh =
       (Resolved (Success ''/tmp/kilocode-clipboard/clipboard-1.jpeg''),
        \<lparr>files = [''/tmp/kilocode-clipboard/clipboard-1.jpeg'' \<mapsto> jpeg_bytes],
         trace = [EnsureDir (Resolved ''/tmp/kilocode-clipboard''),
                  Exec ''which'' [''xclip''] (Resolved ''/usr/bin/xclip''),
                  Exec ''xclip'' xclip_targets_args (Resolved ''image/gif image/jpeg''),
                  ExecBuffer ''xclip'' [''-selection'', ''clipboard'', ''-t'', ''image/jpeg'', ''-o'']
                    max_image_bytes (Resolved jpeg_bytes),
                  GenFilename ''jpeg'' (Resolved ''clipboard-1.jpeg''),
                  WriteFile ''/tmp/kilocode-clipboard/clipboard-1.jpeg'' jpeg_bytes (Resolved ()),
                  Stat ''/tmp/kilocode-clipboard/clipboard-1.jpeg'' (Resolved 4)]\<rparr>)"
  by (simp add: gif_and_jpeg_def desktop_sel fresh_def save_linux_defs probe_defs io_defs
      select_format_def Let_def jpeg_bytes_def)

theorem negotiation_priority_witness:
  "first_supported ''image/gif image/jpeg'' = Some ''jpeg''
   \<and> Exec ''xclip'' xclip_targets_args (Resolved ''image/gif image/jpeg'')
        \<in> set (new_events fresh (saveClipboardImageLinux gif_and_jpeg fresh))
   \<and> ExecBuffer ''xclip'' (fetch_args ''xclip'' ''image/jpeg'') max_image_bytes (Resolved jpeg_bytes)
        \<in> set (new_events fresh (saveClipboardImageLinux gif_and_jpeg fresh))
   \<and> GenFilename ''jpeg'' (Resolved ''clipboard-1.jpeg'')
        \<in> set (new_events fresh (saveClipboardImageLinux gif_and_jpeg fresh))
   \<and> fst (saveClipboardImageLinux gif_and_jpeg fresh)
        = Resolved (Success ''/tmp/kilocode-clipboard/clipboard-1.jpeg'')"
  using negotiation_priority [OF gif_and_jpeg_run,
      of "''xclip''" xclip_targets_args "''image/gif image/jpeg''" "''jpeg''"]
  by (simp add: gif_and_jpeg_run new_events_def fresh_sel fetch_args_def first_supported_def)

subsection \<open>C8: repeating the detection\<close>

lemma bind_io_blind:
  assumes "\<And>s s'. fst (m s) = fst (m s')" "\<And>x s s'. fst (f x s) = fst (f x s')"
  shows "fst (bind_io m f s) = fst (bind_io m f s')"
proof -
  obtain r1 t1 where 1: "m s = (r1, t1)" by (cases "m s")
  obtain r2 t2 where 2: "m s' = (r2, t2)" by (cases "m s'")
  from assms(1) [of s s'] 1 2 have "r1 = r2" by simp
  with 1 2 assms(2) show ?thesis
    by (cases r1) (auto simp: bind_io_def)
qed

lemma has_blocks_blind:
  assumes "\<And>h h' cmd args. proc_text E h cmd args = proc_text E h' cmd args"
  shows "fst (has_wayland_block E s) = fst (has_wayland_block E s')"
    "fst (has_xclip_block E s) = fst (has_xclip_block E s')"
proof -
  have eq: "proc_text E h cmd args = proc_text E [] cmd args" if "h \<noteq> []" for h cmd args
    using assms by blast
  show "fst (has_wayland_block E s) = fst (has_wayland_block E s')"
    using assms [of "trace s" _ _ "trace s'"]
    by (auto simp: has_wayland_block_def probe_defs io_defs Let_def eq split: completion.splits)
  show "fst (has_xclip_block E s) = fst (has_xclip_block E s')"
    using assms [of "trace s" _ _ "trace s'"]
    by (auto simp: has_xclip_block_def probe_defs io_defs Let_def eq split: completion.splits)
qed

lemma has_xsel_tail:
  "fst (bind_io (has_xsel_block E)
          (\<lambda>r. case r of Some b \<Rightarrow> return_io b | None \<Rightarrow> return_io False) s) = Resolved False"
  by (auto simp: has_xsel_block_def probe_defs io_defs Let_def split: completion.splits)

lemma has_linux_blind:
  assumes "\<And>h h' cmd args. proc_text E h cmd args = proc_text E h' cmd args"
  shows "fst (hasClipboardImageLinux E s) = fst (hasClipboardImageLinux E s')"
  unfolding hasClipboardImageLinux_def
  by (intro bind_io_blind has_blocks_blind [OF assms])
     (auto simp: return_io_def has_xsel_tail split: option.splits
        intro!: bind_io_blind has_blocks_blind [OF assms])

lemma has_windows_blind:
  assumes "\<And>h h' cmd args. proc_text E h cmd args = proc_text E h' cmd args"
  shows "fst (hasClipboardImageWindows E s) = fst (hasClipboardImageWindows E s')"
  using assms [of "trace s" _ _ "trace s'"]
  by (auto simp: hasClipboardImageWindows_def runPowerShell_def io_defs Let_def
      split: completion.splits)

text \<open>
  C8.  In an environment whose external commands answer the same whenever they are asked
  (same tools, same clipboard, same variables), a second call of the existence check,
  made right after the first, returns what the first returned; on Linux and on Windows.
\<close>
theorem detection_is_repeatable:
  assumes "\<forall>h h' cmd args. proc_text E h cmd args = proc_text E h' cmd args"
  shows "fst (hasClipboardImageLinux E (snd (hasClipboardImageLinux E s)))
           = fst (hasClipboardImageLinux E s)
     \<and> fst (hasClipboardImageWindows E (snd (hasClipboardImageWindows E s)))
           = fst (hasClipboardImageWindows E s)"
  using assms has_linux_blind [of E] has_windows_blind [of E] by blast

text \<open>Witness: environments whose commands answer the same at every moment.\<close>
theorem detection_is_repeatable_witness:
  "(\<forall>h h' cmd args. proc_text (png_without_wayland None) h cmd args
       = proc_text (png_without_wayland None) h' cmd args)
   \<and> fst (hasClipboardImageLinux (png_without_wayland None) fresh) = Resolved True
   \<and> fst (hasClipboardImageLinux (png_without_wayland None)
           (snd (hasClipboardImageLinux (png_without_wayland None) fresh))) = Resolved True
   \<and> fst (hasClipboardImageWindows (windows (Resolved (''True'' @ crlf)) Map.empty) fresh) = Resolved True
   \<and> fst (hasClipboardImageWindows (windows (Resolved (''True'' @ crlf)) Map.empty)
           (snd (hasClipboardImageWindows (windows (Resolved (''True'' @ crlf)) Map.empty) fresh)))
       = Resolved True"
proof -
  have stable_linux: "\<forall>h h' cmd args. proc_text (png_without_wayland None) h cmd args
       = proc_text (png_without_wayland None) h' cmd args"
    by (simp add: png_without_wayland_def desktop_sel)
  have stable_windows: "\<forall>h h' cmd args.
      proc_text (windows (Resolved (''True'' @ crlf)) Map.empty) h cmd args
       = proc_text (windows (Resolved (''True'' @ crlf)) Map.empty) h' cmd args"
    by (simp add: windows_sel)
  have first_linux: "fst (hasClipboardImageLinux (png_without_wayland None) fresh) = Resolved True"
    by (simp add: png_without_wayland_has)
  have first_windows:
    "fst (hasClipboardImageWindows (windows (Resolved (''True'' @ crlf)) Map.empty) fresh) = Resolved True"
    by (simp add: windows_has_run toLowerCase_true true_ignoring_case_def crlf_def trim_def
        isWhiteSpace_def)
  from detection_is_repeatable [OF stable_linux, of fresh]
    detection_is_repeatable [OF stable_windows, of fresh]
    stable_linux first_linux first_windows
  show ?thesis by simp
qed

subsection \<open>C9: without Wayland the chain starts at xclip\<close>

lemma not_wayland_iff:
  "\<not> isWayland E \<longleftrightarrow> WAYLAND_DISPLAY E = None \<or> WAYLAND_DISPLAY E = Some []"
  by (auto simp: isWayland_def split: option.splits)

lemma is_which_not_invokes: "is_which ev \<Longrightarrow> tool \<noteq> ''which'' \<Longrightarrow> \<not> invokes tool ev"
  by (cases ev rule: is_which.cases) auto

lemma is_fs_not_invokes: "is_fs_event ev \<Longrightarrow> \<not> invokes tool ev"
  by (cases ev rule: is_fs_event.cases) auto

lemma has_wayland_block_skip:
  "\<not> isWayland E \<Longrightarrow> has_wayland_block E s = (Resolved None, s)"
  by (simp add: has_wayland_block_def io_defs)

lemma has_xclip_block_trace:
  "\<exists>b r evs. fst (has_xclip_block E s) = Resolved b \<and>
     trace (snd (has_xclip_block E s)) = trace s @ Exec ''which'' [''xclip''] r # evs
     \<and> list_all (\<lambda>ev. \<not> invokes ''wl-paste'' ev) evs"
  by (auto simp: has_xclip_block_def probe_defs io_defs Let_def xclip_targets_args_def
      split: completion.splits)

lemma has_xsel_block_trace:
  "\<exists>b evs. fst (has_xsel_block E s) = Resolved b \<and>
     trace (snd (has_xsel_block E s)) = trace s @ evs
     \<and> list_all (\<lambda>ev. \<not> invokes ''wl-paste'' ev) evs"
  by (auto simp: has_xsel_block_def probe_defs io_defs Let_def split: completion.splits)

lemma has_linux_without_wayland:
  assumes "\<not> isWayland E"
  shows "\<exists>r evs. new_events s (hasClipboardImageLinux E s) = Exec ''which'' [''xclip''] r # evs
     \<and> list_all (\<lambda>ev. \<not> invokes ''wl-paste'' ev) evs"
proof -
  obtain b1 r evs1 where x:
    "fst (has_xclip_block E s) = Resolved b1"
    "trace (snd (has_xclip_block E s)) = trace s @ Exec ''which'' [''xclip''] r # evs1"
    "list_all (\<lambda>ev. \<not> invokes ''wl-paste'' ev) evs1"
    using has_xclip_block_trace [of E s] by blast
  obtain s1 where s1: "has_xclip_block E s = (Resolved b1, s1)"
    using x(1) by (cases "has_xclip_block E s") auto
  obtain b2 evs2 where y:
    "fst (has_xsel_block E s1) = Resolved b2"
    "trace (snd (has_xsel_block E s1)) = trace s1 @ evs2"
    "list_all (\<lambda>ev. \<not> invokes ''wl-paste'' ev) evs2"
    using has_xsel_block_trace [of E s1] by blast
  obtain s2 where s2: "has_xsel_block E s1 = (Resolved b2, s2)"
    using y(1) by (cases "has_xsel_block E s1") auto
  from assms x y s1 s2 show ?thesis
    by (cases b1; cases b2)
       (auto simp: hasClipboardImageLinux_def has_wayland_block_skip bind_io_def return_io_def
          new_events_def)
qed

lemma finish_no_wl_paste:
  assumes "save_finish E dir d f s = (r, s')"
  shows "\<exists>evs. trace s' = trace s @ evs \<and> list_all (\<lambda>ev. \<not> invokes ''wl-paste'' ev) evs"
  using assms
proof (cases rule: save_finish_cases)
  case (some_tool evs)
  then show ?thesis by (auto simp: list_all_iff is_which_not_invokes)
next
  case (persist data name)
  from write_and_verify_trace [of E "path_join E dir name" data
      "s\<lparr>trace := trace s @ [GenFilename f (Resolved name)]\<rparr>"] persist
  show ?thesis by (auto simp: list_all_iff is_fs_not_invokes)
qed auto

lemma xclip_block_first:
  assumes "save_xclip_block E None f s = (r, s')"
  shows "\<exists>a evs. trace s' = trace s @ Exec ''which'' [''xclip''] a # evs
     \<and> list_all (\<lambda>ev. \<not> invokes ''wl-paste'' ev) evs"
  using assms by (cases rule: save_xclip_block_cases) auto

lemma save_linux_without_wayland:
  assumes nw: "\<not> isWayland E"
  shows "\<exists>d evs. new_events s (saveClipboardImageLinux E s) = EnsureDir d # evs
     \<and> list_all (\<lambda>ev. \<not> invokes ''wl-paste'' ev) evs
     \<and> (case d of
          Rejected e \<Rightarrow> evs = []
        | Resolved dir \<Rightarrow> \<exists>a evs'. evs = Exec ''which'' [''xclip''] a # evs')"
proof -
  obtain r s' where run: "saveClipboardImageLinux E s = (r, s')"
    by (cases "saveClipboardImageLinux E s")
  from run show ?thesis
  proof (cases rule: saveClipboardImageLinux_cases)
    case (no_dir e)
    with run show ?thesis by (simp add: new_events_def)
  next
    case (wayland_returned dir res)
    from wayland_returned(2) nw show ?thesis
      by (cases rule: save_wayland_block_cases) auto
  next
    case (xclip_returned dir d f s1 res)
    from xclip_returned(2) nw have 1: "d = None" "trace s1 = trace s @ [EnsureDir (Resolved dir)]"
      by (cases rule: save_wayland_block_cases, auto)+
    from xclip_block_first [OF xclip_returned(3) [unfolded 1(1)]] 1 run show ?thesis
      by (auto simp: new_events_def)
  next
    case (finished dir d f s1 d' f' s2)
    from finished(2) nw have 1: "d = None" "trace s1 = trace s @ [EnsureDir (Resolved dir)]"
      by (cases rule: save_wayland_block_cases, auto)+
    from xclip_block_first [OF finished(3) [unfolded 1(1)]] finish_no_wl_paste [OF finished(4)] 1 run
    show ?thesis
      by (auto simp: new_events_def)
  qed
qed

text \<open>
  C9.  When \<^verbatim>\<open>WAYLAND_DISPLAY\<close> is unset or empty, no request of a run of
  \<open>hasClipboardImageLinux\<close> or of \<open>saveClipboardImageLinux\<close> executes wl-paste, whatever
  is installed; the first tool request is the probe \<^verbatim>\<open>which xclip\<close> (in the save
  operation it follows the call of \<^verbatim>\<open>ensureClipboardDir\<close>, and nothing follows if that
  call fails).
\<close>
theorem without_wayland_no_wl_paste:
  assumes "WAYLAND_DISPLAY E = None \<or> WAYLAND_DISPLAY E = Some []"
  shows "list_all (\<lambda>ev. \<not> invokes ''wl-paste'' ev) (new_events s (hasClipboardImageLinux E s))
     \<and> (\<exists>a evs. new_events s (hasClipboardImageLinux E s) = Exec ''which'' [''xclip''] a # evs)
     \<and> list_all (\<lambda>ev. \<not> invokes ''wl-paste'' ev) (new_events s (saveClipboardImageLinux E s))
     \<and> (\<exists>d evs. new_events s (saveClipboardImageLinux E s) = EnsureDir d # evs
            \<and> (case d of
                  Rejected e \<Rightarrow> evs = []
                | Resolved dir \<Rightarrow> \<exists>a evs'. evs = Exec ''which'' [''xclip''] a # evs'))"
proof -
  from assms have nw: "\<not> isWayland E"
    by (simp add: not_wayland_iff)
  from has_linux_without_wayland [OF nw, of s] save_linux_without_wayland [OF nw, of s]
  show ?thesis by fastforce
qed

text \<open>Witness: an X11 session where wl-paste is installed all the same.\<close>
theorem without_wayland_no_wl_paste_witness:
  "WAYLAND_DISPLAY (png_without_wayland None) = None
   \<and> proc_text (png_without_wayland None) [] ''which'' [''wl-paste''] = Resolved ''/usr/bin/wl-paste''
   \<and> new_events fresh (hasClipboardImageLinux (png_without_wayland None) fresh) =
       [Exec ''which'' [''xclip''] (Resolved ''/usr/bin/xclip''),
        Exec ''xclip'' xclip_targets_args (Resolved ''image/png'')]
   \<and> list_all (\<lambda>ev. \<not> invokes ''wl-paste'' ev)
        (new_events fresh (hasClipboardImageLinux (png_without_wayland None) fresh))
   \<and> list_all (\<lambda>ev. \<not> invokes ''wl-paste'' ev)
        (new_events fresh (saveClipboardImageLinux (png_without_wayland None) fresh))
   \<and> fst (saveClipboardImageLinux (png_without_wayland None) fresh)
        = Resolved (Success ''/tmp/kilocode-clipboard/clipboard-1.png'')"
  using without_wayland_no_wl_paste [of "png_without_wayland None" fresh]
  by (simp add: png_without_wayland_has png_without_wayland_save new_events_def fresh_sel
      xclip_targets_args_def)
     (simp add: png_without_wayland_def desktop_sel)

subsection \<open>C10: the Windows detection\<close>

text \<open>
  C10.  \<open>hasClipboardImageWindows\<close> always returns a boolean and never throws; the
  boolean is true exactly when the PowerShell invocation succeeds and its trimmed output
  equals "true" up to letter case.  On any other output and on any failure of the
  invocation it is false.
\<close>
theorem hasClipboardImageWindows_true_iff:
  "fst (hasClipboardImageWindows E s) =
     Resolved (\<exists>out. proc_text E (trace s) ''powershell.exe'' (powershell_args contains_image_script)
                        = Resolved out
                      \<and> true_ignoring_case (trim out))"
  by (cases "proc_text E (trace s) ''powershell.exe'' (powershell_args contains_image_script)")
     (simp_all add: hasClipboardImageWindows_def runPowerShell_def io_defs Let_def toLowerCase_true)

text \<open>Witness: PowerShell prints \<^verbatim>\<open>True\<close> and a line break, prints \<^verbatim>\<open>False\<close>, or cannot be started.\<close>
theorem hasClipboardImageWindows_true_iff_witness:
  "fst (hasClipboardImageWindows (windows (Resolved (''True'' @ [CHR 0x0D, CHR 0x0A])) Map.empty) fresh)
     = Resolved True
   \<and> fst (hasClipboardImageWindows (windows (Resolved (''False'' @ [CHR 0x0D, CHR 0x0A])) Map.empty) fresh)
     = Resolved False
   \<and> fst (hasClipboardImageWindows (windows (Rejected ''spawn powershell.exe ENOENT'') Map.empty) fresh)
     = Resolved False"
  using
    hasClipboardImageWindows_true_iff
      [of "windows (Resolved (''True'' @ [CHR 0x0D, CHR 0x0A])) Map.empty" fresh]
    hasClipboardImageWindows_true_iff
      [of "windows (Resolved (''False'' @ [CHR 0x0D, CHR 0x0A])) Map.empty" fresh]
    hasClipboardImageWindows_true_iff
      [of "windows (Rejected ''spawn powershell.exe ENOENT'') Map.empty" fresh]
  by (simp add: windows_sel fresh_def true_ignoring_case_def trim_def isWhiteSpace_def)

end
